theory Spec2Isabelle
  imports Main "HOL-Library.Word"
begin

section \<open>Beacon transaction length accounting (services/block_processor.go)\<close>

type_synonym byte = "8 word"
type_synonym bytes = "byte list"

text \<open>
  \<^verbatim>\<open>new(big.Int).SetBytes(buf)\<close> of Go's math/big reads \<open>buf\<close> as a big-endian
  unsigned integer.
\<close>

definition bigInt_SetBytes :: "bytes \<Rightarrow> int" where
  "bigInt_SetBytes buf = foldl (\<lambda>acc b. acc * 256 + uint b) 0 buf"

text \<open>
  \<^verbatim>\<open>(*big.Int).Uint64()\<close> returns the low 64 bits of the magnitude of the number
  (math/big: \<^verbatim>\<open>low64(x.abs)\<close>); the sign is dropped.
\<close>

definition bigInt_Uint64 :: "int \<Rightarrow> 64 word" where
  "bigInt_Uint64 x = word_of_int \<bar>x\<bar>"

text \<open>
  \<^verbatim>\<open>calcBeaconTransactionLength\<close>. Go's \<^verbatim>\<open>int\<close> is 64 bits wide; the length of a
  slice held in memory is far below \<open>2 ^ 63 - 4\<close>, so \<open>txLen\<close> is an unbounded \<open>int\<close>
  here. The conversion \<^verbatim>\<open>int(uint64)\<close> is the two's complement reading \<open>sint\<close>.
\<close>

definition calcBeaconTransactionLength :: "bytes \<Rightarrow> int" where
  "calcBeaconTransactionLength rawTx =
     (case rawTx of
        [] \<Rightarrow> 0
      | b0 # _ \<Rightarrow>
          (let txLen = int (length rawTx) + 4 in
           if b0 < 0xC0 then
             (if b0 = 0x80 then txLen - 2
              else if b0 > 0x80 then
                (let minus = sint (bigInt_Uint64 (bigInt_SetBytes [b0] - bigInt_SetBytes [0xb7]))
                 in txLen - (minus + 1))
              else txLen)
           else txLen))"

section \<open>Shared data types (package types, as used by the sources)\<close>

text \<open>
  Modelled from the spec: the declarations of package \<^verbatim>\<open>types\<close> (hashes, short IDs, block
  types, blocks and their transactions, store transactions), which the sources use but do not
  contain. The spec: a transaction is identified by a 32-byte content hash; a short ID is a
  small unsigned integer; a block is a tagged variant over Eth, four beacon phases and
  Unknown and carries a primary hash, a beacon hash (empty for Eth), the type tag, a header
  blob, an ordered list of transactions, a trailer blob, a total difficulty (Eth only), a
  number and a size.

  \<^verbatim>\<open>types.SHA256Hash\<close> is a 32-byte array; \<^verbatim>\<open>Empty()\<close> compares with the all-zero
  \<^verbatim>\<open>types.EmptyHash\<close>. \<^verbatim>\<open>hash.String()\<close> is the hexadecimal text of the array, an
  injective function, so tables keyed by that text are keyed by the hash itself here.
\<close>

type_synonym SHA256Hash = bytes
type_synonym ShortID = "32 word"
type_synonym NetworkNum = "32 word"
type_synonym NodeEndpoint = string
type_synonym EthConfig = string

definition EmptyHash :: SHA256Hash where
  "EmptyHash = replicate 32 0"

definition Empty :: "SHA256Hash \<Rightarrow> bool" where
  "Empty h = (h = EmptyHash)"

datatype BxBlockType =
    BxBlockTypeUnknown
  | BxBlockTypeEth
  | BxBlockTypeBeaconPhase0
  | BxBlockTypeBeaconAltair
  | BxBlockTypeBeaconBellatrix
  | BxBlockTypeBeaconCapella

text \<open>
  Modelled from the spec: \<^verbatim>\<open>types.BxBlockTransaction\<close> with its two constructors. A
  transaction inside a block is either fully inlined bytes or a reference filled by short ID;
  \<^verbatim>\<open>Hash()\<close> and \<^verbatim>\<open>Content()\<close> read the two fields, and a raw transaction has the zero
  hash.
\<close>

record BxBlockTransaction =
  bbtHash :: SHA256Hash
  bbtContent :: bytes

definition NewBxBlockTransaction :: "SHA256Hash \<Rightarrow> bytes \<Rightarrow> BxBlockTransaction" where
  "NewBxBlockTransaction h c = \<lparr>bbtHash = h, bbtContent = c\<rparr>"

definition NewRawBxBlockTransaction :: "bytes \<Rightarrow> BxBlockTransaction" where
  "NewRawBxBlockTransaction c = \<lparr>bbtHash = EmptyHash, bbtContent = c\<rparr>"

text \<open>
  Modelled from the spec: \<^verbatim>\<open>types.BxBlock\<close> and \<^verbatim>\<open>types.NewRawBxBlock\<close>, which stores
  its arguments. \<^verbatim>\<open>TotalDifficulty\<close> is a \<^verbatim>\<open>*big.Int\<close> that is \<^verbatim>\<open>nil\<close> for beacon
  blocks (\<open>None\<close>); \<^verbatim>\<open>Number\<close> is a \<^verbatim>\<open>*big.Int\<close> that every constructor sets. A \<^verbatim>\<open>nil\<close>
  byte slice and an empty one are both \<open>[]\<close>.
\<close>

record BxBlock =
  blkHash :: SHA256Hash
  blkBeaconHash :: SHA256Hash
  blkType :: BxBlockType
  blkHeader :: bytes
  blkTxs :: "BxBlockTransaction list"
  blkTrailer :: bytes
  blkTotalDifficulty :: "int option"
  blkNumber :: int
  blkSize :: int

definition NewRawBxBlock ::
  "SHA256Hash \<Rightarrow> SHA256Hash \<Rightarrow> BxBlockType \<Rightarrow> bytes \<Rightarrow> BxBlockTransaction list \<Rightarrow> bytes \<Rightarrow>
   int option \<Rightarrow> int \<Rightarrow> int \<Rightarrow> BxBlock" where
  "NewRawBxBlock h bh t header txs trailer td number sz =
     \<lparr>blkHash = h, blkBeaconHash = bh, blkType = t, blkHeader = header, blkTxs = txs,
      blkTrailer = trailer, blkTotalDifficulty = td, blkNumber = number, blkSize = sz\<rparr>"

text \<open>
  Modelled from the spec: \<^verbatim>\<open>types.BxTransaction\<close>, a transaction as the transaction store
  holds it, with the accessors the processor calls (\<^verbatim>\<open>Hash\<close>, \<^verbatim>\<open>Content\<close>, \<^verbatim>\<open>ShortIDs\<close>,
  \<^verbatim>\<open>AddTime\<close>).
\<close>

record BxTransaction =
  txHash :: SHA256Hash
  txContent :: bytes
  txShortIDs :: "ShortID list"
  txAddTime :: int

section \<open>The bridge (package blockchain, held in test/utils.go)\<close>

text \<open>
  A Go channel between two operations is its buffer and its capacity. A send in a
  \<^verbatim>\<open>select\<close> with a \<^verbatim>\<open>default\<close> branch takes the \<^verbatim>\<open>default\<close> branch when the buffer has
  no room (\<open>chanTrySend\<close> gives \<open>None\<close>); a plain send \<^verbatim>\<open>ch <- v\<close> parks the calling
  goroutine in that case, so the call does not return (\<open>chanSend\<close> gives \<open>None\<close>); a
  receive takes the oldest element. Goroutines parked on a channel are not part of the
  state: the model describes the bridge between calls, with no receiver waiting.
\<close>

record 'a chan =
  chanBuf :: "'a list"
  chanCap :: nat

definition makeChan :: "nat \<Rightarrow> 'a chan" where
  "makeChan n = \<lparr>chanBuf = [], chanCap = n\<rparr>"

definition chanHasRoom :: "'a chan \<Rightarrow> bool" where
  "chanHasRoom c = (length (chanBuf c) < chanCap c)"

definition chanAtCapacity :: "'a chan \<Rightarrow> bool" where
  "chanAtCapacity c = (length (chanBuf c) = chanCap c)"

definition chanTrySend :: "'a chan \<Rightarrow> 'a \<Rightarrow> 'a chan option" where
  "chanTrySend c v = (if chanHasRoom c then Some (c\<lparr>chanBuf := chanBuf c @ [v]\<rparr>) else None)"

definition chanSend :: "'a chan \<Rightarrow> 'a \<Rightarrow> 'a chan option" where
  "chanSend c v = (if chanHasRoom c then Some (c\<lparr>chanBuf := chanBuf c @ [v]\<rparr>) else None)"

definition chanRecv :: "'a chan \<Rightarrow> ('a \<times> 'a chan) option" where
  "chanRecv c = (case chanBuf c of [] \<Rightarrow> None | v # rest \<Rightarrow> Some (v, c\<lparr>chanBuf := rest\<rparr>))"

record TransactionAnnouncement =
  taHashes :: "SHA256Hash list"
  taPeerID :: string
  taPeerEndpoint :: NodeEndpoint

datatype NodeType = NodeTypeUnset | NodeTypeOf nat

record Transactions =
  tsTransactions :: "BxTransaction list"
  tsPeerEndpoint :: NodeEndpoint
  tsConnectionType :: NodeType

record BlockFromNode =
  bfnBlock :: BxBlock
  bfnPeerEndpoint :: NodeEndpoint

record ConnectionStatus =
  csPeerEndpoint :: NodeEndpoint
  csIsConnected :: bool
  csIsDynamic :: bool

record ValidatorListInfo =
  vliValidatorList :: "string list"
  vliBlockHeight :: "64 word"

datatype bridge_error =
    ErrChannelFull
  | ErrCouldNotSendBlock SHA256Hash BxBlockType

definition transactionBacklog :: nat where "transactionBacklog = 2000"
definition transactionHashesBacklog :: nat where "transactionHashesBacklog = 1000"
definition blockBacklog :: nat where "blockBacklog = 100"
definition statusBacklog :: nat where "statusBacklog = 10"

text \<open>
  \<^verbatim>\<open>BxBridge\<close>. The embedded \<^verbatim>\<open>Converter\<close> takes no part in queueing and is left out.
\<close>

record BxBridge =
  config :: "EthConfig chan"
  transactionsFromNode :: "Transactions chan"
  transactionsFromBDN :: "Transactions chan"
  transactionHashesFromNode :: "TransactionAnnouncement chan"
  transactionHashesRequests :: "TransactionAnnouncement chan"
  beaconBlock :: bool
  blocksFromNode :: "BlockFromNode chan"
  ethBlocksFromBDN :: "BxBlock chan"
  beaconBlocksFromBDN :: "BxBlock chan"
  confirmedBlockFromNode :: "BlockFromNode chan"
  noActiveBlockchainPeers :: "unit chan"
  blockchainStatusRequest :: "unit chan"
  blockchainStatusResponse :: "NodeEndpoint list chan"
  nodeConnectionCheckRequest :: "unit chan"
  nodeConnectionCheckResponse :: "NodeEndpoint chan"
  blockchainConnectionStatus :: "ConnectionStatus chan"
  disconnectEvent :: "NodeEndpoint chan"
  validatorInfo :: "ValidatorListInfo chan"

definition NewBxBridge :: "bool \<Rightarrow> BxBridge" where
  "NewBxBridge beacon =
     \<lparr>config = makeChan 1,
      transactionsFromNode = makeChan transactionBacklog,
      transactionsFromBDN = makeChan transactionBacklog,
      transactionHashesFromNode = makeChan transactionHashesBacklog,
      transactionHashesRequests = makeChan transactionHashesBacklog,
      beaconBlock = beacon,
      blocksFromNode = makeChan blockBacklog,
      ethBlocksFromBDN = makeChan blockBacklog,
      beaconBlocksFromBDN = makeChan blockBacklog,
      confirmedBlockFromNode = makeChan blockBacklog,
      noActiveBlockchainPeers = makeChan 0,
      blockchainStatusRequest = makeChan statusBacklog,
      blockchainStatusResponse = makeChan statusBacklog,
      nodeConnectionCheckRequest = makeChan statusBacklog,
      nodeConnectionCheckResponse = makeChan statusBacklog,
      blockchainConnectionStatus = makeChan transactionBacklog,
      disconnectEvent = makeChan statusBacklog,
      validatorInfo = makeChan 1\<rparr>"

text \<open>
  The result of a non-blocking enqueue: the returned error (\<open>None\<close> is \<^verbatim>\<open>nil\<close>) and the
  bridge afterwards.
\<close>

type_synonym send_result = "bridge_error option \<times> BxBridge"

text \<open>\<^verbatim>\<open>UpdateNetworkConfig\<close> is a plain send: \<open>None\<close> means that the call does not return.\<close>

definition UpdateNetworkConfig :: "BxBridge \<Rightarrow> EthConfig \<Rightarrow> send_result option" where
  "UpdateNetworkConfig b cfg =
     (case chanSend (config b) cfg of
        None \<Rightarrow> None
      | Some c \<Rightarrow> Some (None, b\<lparr>config := c\<rparr>))"

definition AnnounceTransactionHashes ::
  "BxBridge \<Rightarrow> string \<Rightarrow> SHA256Hash list \<Rightarrow> NodeEndpoint \<Rightarrow> send_result" where
  "AnnounceTransactionHashes b peerID hashes endpoint =
     (case chanTrySend (transactionHashesFromNode b)
             \<lparr>taHashes = hashes, taPeerID = peerID, taPeerEndpoint = endpoint\<rparr> of
        Some c \<Rightarrow> (None, b\<lparr>transactionHashesFromNode := c\<rparr>)
      | None \<Rightarrow> (Some ErrChannelFull, b))"

definition RequestTransactionsFromNode ::
  "BxBridge \<Rightarrow> string \<Rightarrow> SHA256Hash list \<Rightarrow> send_result" where
  "RequestTransactionsFromNode b peerID hashes =
     (case chanTrySend (transactionHashesRequests b)
             \<lparr>taHashes = hashes, taPeerID = peerID, taPeerEndpoint = []\<rparr> of
        Some c \<Rightarrow> (None, b\<lparr>transactionHashesRequests := c\<rparr>)
      | None \<Rightarrow> (Some ErrChannelFull, b))"

definition SendTransactionsFromBDN :: "BxBridge \<Rightarrow> Transactions \<Rightarrow> send_result" where
  "SendTransactionsFromBDN b transactions =
     (case chanTrySend (transactionsFromBDN b) transactions of
        Some c \<Rightarrow> (None, b\<lparr>transactionsFromBDN := c\<rparr>)
      | None \<Rightarrow> (Some ErrChannelFull, b))"

definition SendTransactionsToBDN ::
  "BxBridge \<Rightarrow> BxTransaction list \<Rightarrow> NodeEndpoint \<Rightarrow> send_result" where
  "SendTransactionsToBDN b txs peerEndpoint =
     (case chanTrySend (transactionsFromNode b)
             \<lparr>tsTransactions = txs, tsPeerEndpoint = peerEndpoint, tsConnectionType = NodeTypeUnset\<rparr> of
        Some c \<Rightarrow> (None, b\<lparr>transactionsFromNode := c\<rparr>)
      | None \<Rightarrow> (Some ErrChannelFull, b))"

definition SendConfirmedBlockToGateway ::
  "BxBridge \<Rightarrow> BxBlock \<Rightarrow> NodeEndpoint \<Rightarrow> send_result" where
  "SendConfirmedBlockToGateway b block peerEndpoint =
     (case chanTrySend (confirmedBlockFromNode b)
             \<lparr>bfnBlock = block, bfnPeerEndpoint = peerEndpoint\<rparr> of
        Some c \<Rightarrow> (None, b\<lparr>confirmedBlockFromNode := c\<rparr>)
      | None \<Rightarrow> (Some ErrChannelFull, b))"

definition SendBlockToBDN :: "BxBridge \<Rightarrow> BxBlock \<Rightarrow> NodeEndpoint \<Rightarrow> send_result" where
  "SendBlockToBDN b block peerEndpoint =
     (case chanTrySend (blocksFromNode b) \<lparr>bfnBlock = block, bfnPeerEndpoint = peerEndpoint\<rparr> of
        Some c \<Rightarrow> (None, b\<lparr>blocksFromNode := c\<rparr>)
      | None \<Rightarrow> (Some ErrChannelFull, b))"

text \<open>
  \<^verbatim>\<open>SendBlockToNode\<close>: the \<^verbatim>\<open>switch\<close> on the block type, with the \<^verbatim>\<open>default\<close> branch
  for every type that is neither Eth nor a beacon type.
\<close>

definition SendBlockToNode :: "BxBridge \<Rightarrow> BxBlock \<Rightarrow> send_result" where
  "SendBlockToNode b block =
     (case blkType block of
        BxBlockTypeEth \<Rightarrow>
          (case chanTrySend (ethBlocksFromBDN b) block of
             Some c \<Rightarrow> (None, b\<lparr>ethBlocksFromBDN := c\<rparr>)
           | None \<Rightarrow> (Some ErrChannelFull, b))
      | BxBlockTypeUnknown \<Rightarrow> (Some (ErrCouldNotSendBlock (blkHash block) (blkType block)), b)
      | _ \<Rightarrow>
          (if \<not> beaconBlock b then (None, b)
           else
             (case chanTrySend (beaconBlocksFromBDN b) block of
                Some c \<Rightarrow> (None, b\<lparr>beaconBlocksFromBDN := c\<rparr>)
              | None \<Rightarrow> (Some ErrChannelFull, b))))"

definition SendNoActiveBlockchainPeersAlert :: "BxBridge \<Rightarrow> send_result" where
  "SendNoActiveBlockchainPeersAlert b =
     (case chanTrySend (noActiveBlockchainPeers b) () of
        Some c \<Rightarrow> (None, b\<lparr>noActiveBlockchainPeers := c\<rparr>)
      | None \<Rightarrow> (Some ErrChannelFull, b))"

definition SendBlockchainStatusRequest :: "BxBridge \<Rightarrow> send_result" where
  "SendBlockchainStatusRequest b =
     (case chanTrySend (blockchainStatusRequest b) () of
        Some c \<Rightarrow> (None, b\<lparr>blockchainStatusRequest := c\<rparr>)
      | None \<Rightarrow> (Some ErrChannelFull, b))"

definition SendBlockchainStatusResponse :: "BxBridge \<Rightarrow> NodeEndpoint list \<Rightarrow> send_result" where
  "SendBlockchainStatusResponse b endpoints =
     (case chanTrySend (blockchainStatusResponse b) endpoints of
        Some c \<Rightarrow> (None, b\<lparr>blockchainStatusResponse := c\<rparr>)
      | None \<Rightarrow> (Some ErrChannelFull, b))"

definition SendNodeConnectionCheckRequest :: "BxBridge \<Rightarrow> send_result" where
  "SendNodeConnectionCheckRequest b =
     (case chanTrySend (nodeConnectionCheckRequest b) () of
        Some c \<Rightarrow> (None, b\<lparr>nodeConnectionCheckRequest := c\<rparr>)
      | None \<Rightarrow> (Some ErrChannelFull, b))"

definition SendNodeConnectionCheckResponse :: "BxBridge \<Rightarrow> NodeEndpoint \<Rightarrow> send_result" where
  "SendNodeConnectionCheckResponse b endpoints =
     (case chanTrySend (nodeConnectionCheckResponse b) endpoints of
        Some c \<Rightarrow> (None, b\<lparr>nodeConnectionCheckResponse := c\<rparr>)
      | None \<Rightarrow> (Some ErrChannelFull, b))"

definition SendValidatorListInfo :: "BxBridge \<Rightarrow> ValidatorListInfo \<Rightarrow> send_result" where
  "SendValidatorListInfo b info =
     (case chanTrySend (validatorInfo b) info of
        Some c \<Rightarrow> (None, b\<lparr>validatorInfo := c\<rparr>)
      | None \<Rightarrow> (Some ErrChannelFull, b))"

definition SendBlockchainConnectionStatus :: "BxBridge \<Rightarrow> ConnectionStatus \<Rightarrow> send_result" where
  "SendBlockchainConnectionStatus b connStatus =
     (case chanTrySend (blockchainConnectionStatus b) connStatus of
        Some c \<Rightarrow> (None, b\<lparr>blockchainConnectionStatus := c\<rparr>)
      | None \<Rightarrow> (Some ErrChannelFull, b))"

definition SendDisconnectEvent :: "BxBridge \<Rightarrow> NodeEndpoint \<Rightarrow> send_result" where
  "SendDisconnectEvent b endpoint =
     (case chanTrySend (disconnectEvent b) endpoint of
        Some c \<Rightarrow> (None, b\<lparr>disconnectEvent := c\<rparr>)
      | None \<Rightarrow> (Some ErrChannelFull, b))"

section \<open>The block processor (services/block_processor.go)\<close>

datatype error =
    ErrAlreadyProcessed
  | ErrMissingShortIDs
  | ErrUnknownBlockType
  | ErrNotCompitableBeaconBlock
  | ErrMoreEmptyTransactions
  | ErrCodec string

text \<open>
  Modelled from the spec: \<^verbatim>\<open>HashHistory\<close> (\<^verbatim>\<open>NewHashHistory\<close>, \<^verbatim>\<open>Add\<close>, \<^verbatim>\<open>Exists\<close>), whose
  source is not part of the files at hand. The spec: a set of keys with per-entry expiration;
  \<^verbatim>\<open>Exists\<close> returns true iff an \<^verbatim>\<open>Add(key, ttl)\<close> happened with \<open>now < addedAt + ttl\<close>.
  The history keeps every \<^verbatim>\<open>Add\<close> as \<open>(key, addedAt, ttl)\<close>; the background sweeper removes
  expired entries only and so does not change \<^verbatim>\<open>Exists\<close>. Times and durations are
  nanoseconds.
\<close>

type_synonym HashHistory = "(SHA256Hash \<times> int \<times> int) list"

definition NewHashHistory :: HashHistory where
  "NewHashHistory = []"

definition hhAdd :: "HashHistory \<Rightarrow> SHA256Hash \<Rightarrow> int \<Rightarrow> int \<Rightarrow> HashHistory" where
  "hhAdd hh key ttl now = hh @ [(key, now, ttl)]"

definition hhExists :: "HashHistory \<Rightarrow> SHA256Hash \<Rightarrow> int \<Rightarrow> bool" where
  "hhExists hh key now = list_ex (\<lambda>(k, addedAt, ttl). k = key \<and> now < addedAt + ttl) hh"

definition minute :: int where
  "minute = 60 * 1000000000"

text \<open>
  Modelled from the spec: the \<^verbatim>\<open>TxStore\<close> interface (hash, short ID and content lookups,
  consumed through its contract only), as far as the processor uses it: \<^verbatim>\<open>Get\<close> by hash (\<open>None\<close> when
  \<^verbatim>\<open>ok\<close> is false) and \<^verbatim>\<open>GetTxByShortID\<close> (\<open>None\<close> when it returns an error).
\<close>

record TxStore =
  tsGet :: "SHA256Hash \<Rightarrow> BxTransaction option"
  tsGetTxByShortID :: "ShortID \<Rightarrow> BxTransaction option"

record blockProcessor =
  txStore :: TxStore
  processedBlocks :: HashHistory

definition NewBlockProcessor :: "TxStore \<Rightarrow> blockProcessor" where
  "NewBlockProcessor store = \<lparr>txStore = store, processedBlocks = NewHashHistory\<rparr>"

record bxCompressedTransaction =
  IsFullTransaction :: bool
  Transaction :: bytes

record bxBlockSSZ =
  sszBlock :: bytes
  sszTxs :: "bxCompressedTransaction list"
  sszNumber :: "64 word"

record bxBlockRLP =
  rlpHeader :: bytes
  rlpTxs :: "bxCompressedTransaction list"
  rlpTrailer :: bytes
  rlpTotalDifficulty :: "int option"
  rlpNumber :: int

text \<open>
  The two external codecs (go-ethereum's \<^verbatim>\<open>rlp\<close> and the generated SSZ methods) are
  parameters: each call returns the error text (\<open>Inl\<close>) or the result.
\<close>

record codec =
  rlpEncodeToBytes :: "bxBlockRLP \<Rightarrow> string + bytes"
  rlpDecodeBytes :: "bytes \<Rightarrow> string + bxBlockRLP"
  MarshalSSZ :: "bxBlockSSZ \<Rightarrow> string + bytes"
  UnmarshalSSZ :: "bytes \<Rightarrow> string + bxBlockSSZ"

text \<open>
  \<^verbatim>\<open>rlp.ListSize\<close> of go-ethereum: the content size plus the size of the list header.
  Sizes are natural numbers here (the sums stay far below \<open>2 ^ 64\<close>).
\<close>

fun rlp_intsize :: "nat \<Rightarrow> nat" where
  "rlp_intsize n = (if n < 256 then 1 else Suc (rlp_intsize (n div 256)))"

definition rlp_headsize :: "nat \<Rightarrow> nat" where
  "rlp_headsize n = (if n < 56 then 1 else 1 + rlp_intsize n)"

definition rlp_ListSize :: "nat \<Rightarrow> nat" where
  "rlp_ListSize contentSize = rlp_headsize contentSize + contentSize"

text \<open>
  Modelled from the spec: \<^verbatim>\<open>bxmessage.Broadcast\<close> and \<^verbatim>\<open>bxmessage.NewBlockBroadcast\<close>. The
  spec: the wire form carries the primary hash, the beacon hash (possibly empty), the block
  type, the encoded payload, the ordered list of short IDs and a network identifier; the
  accessors \<^verbatim>\<open>Hash()\<close>, \<^verbatim>\<open>BeaconHash()\<close>, \<^verbatim>\<open>BlockType()\<close>, \<^verbatim>\<open>Block()\<close> and
  \<^verbatim>\<open>ShortIDs()\<close> read them.
\<close>

record Broadcast =
  bcHash :: SHA256Hash
  bcBeaconHash :: SHA256Hash
  bcBlockType :: BxBlockType
  bcBlock :: bytes
  bcShortIDs :: "ShortID list"
  bcNetworkNum :: NetworkNum

definition NewBlockBroadcast ::
  "SHA256Hash \<Rightarrow> SHA256Hash \<Rightarrow> BxBlockType \<Rightarrow> bytes \<Rightarrow> ShortID list \<Rightarrow> NetworkNum \<Rightarrow> Broadcast" where
  "NewBlockBroadcast h bh t encodedBlock shortIDs networkNum =
     \<lparr>bcHash = h, bcBeaconHash = bh, bcBlockType = t, bcBlock = encodedBlock,
      bcShortIDs = shortIDs, bcNetworkNum = networkNum\<rparr>"

definition isBeaconType :: "BxBlockType \<Rightarrow> bool" where
  "isBeaconType t =
     (case t of
        BxBlockTypeBeaconPhase0 \<Rightarrow> True
      | BxBlockTypeBeaconAltair \<Rightarrow> True
      | BxBlockTypeBeaconBellatrix \<Rightarrow> True
      | BxBlockTypeBeaconCapella \<Rightarrow> True
      | _ \<Rightarrow> False)"

definition ShouldProcess :: "blockProcessor \<Rightarrow> int \<Rightarrow> SHA256Hash \<Rightarrow> bool" where
  "ShouldProcess bp now h = (\<not> hhExists (processedBlocks bp) h now)"

definition markProcessed :: "blockProcessor \<Rightarrow> int \<Rightarrow> SHA256Hash \<Rightarrow> blockProcessor" where
  "markProcessed bp now h = bp\<lparr>processedBlocks := hhAdd (processedBlocks bp) h (10 * minute) now\<rparr>"

text \<open>
  The test in the body of the compression loop: the short ID that replaces the
  transaction, if the store knows its hash, the entry is older than
  \<^verbatim>\<open>maxTimestampForCompression\<close> and it has a short ID.
\<close>

definition compressibleShortID :: "TxStore \<Rightarrow> int \<Rightarrow> BxBlockTransaction \<Rightarrow> ShortID option" where
  "compressibleShortID store maxTimestampForCompression tx =
     (case tsGet store (bbtHash tx) of
        None \<Rightarrow> None
      | Some bxTransaction \<Rightarrow>
          (if txAddTime bxTransaction < maxTimestampForCompression then
             (case txShortIDs bxTransaction of [] \<Rightarrow> None | shortID # _ \<Rightarrow> Some shortID)
           else None))"

text \<open>
  The loop \<^verbatim>\<open>for _, tx := range block.Txs\<close> of \<^verbatim>\<open>newRLPBlockBroadcast\<close>, which
  \<^verbatim>\<open>newSSZBlockBroadcast\<close> repeats word for word; \<open>usedShortIDs\<close> and \<open>txs\<close> are the two
  slices it appends to.
\<close>

fun compressLoop ::
  "TxStore \<Rightarrow> int \<Rightarrow> BxBlockTransaction list \<Rightarrow> ShortID list \<Rightarrow> bxCompressedTransaction list \<Rightarrow>
   ShortID list \<times> bxCompressedTransaction list" where
  "compressLoop store maxTs [] usedShortIDs txs = (usedShortIDs, txs)"
| "compressLoop store maxTs (tx # rest) usedShortIDs txs =
     (case compressibleShortID store maxTs tx of
        Some shortID \<Rightarrow>
          compressLoop store maxTs rest (usedShortIDs @ [shortID])
            (txs @ [\<lparr>IsFullTransaction = False, Transaction = []\<rparr>])
      | None \<Rightarrow>
          compressLoop store maxTs rest usedShortIDs
            (txs @ [\<lparr>IsFullTransaction = True, Transaction = bbtContent tx\<rparr>]))"

text \<open>
  What one pass of the body of \<open>compressLoop\<close> appends to \<open>txs\<close>: a placeholder for a
  transaction that is replaced by a short ID, the full content otherwise.
\<close>

definition compressedEntry :: "TxStore \<Rightarrow> int \<Rightarrow> BxBlockTransaction \<Rightarrow> bxCompressedTransaction" where
  "compressedEntry store maxTs tx =
     (case compressibleShortID store maxTs tx of
        Some shortID \<Rightarrow> \<lparr>IsFullTransaction = False, Transaction = []\<rparr>
      | None \<Rightarrow> \<lparr>IsFullTransaction = True, Transaction = bbtContent tx\<rparr>)"

text \<open>
  The store of the receiving processor returns, for every short ID that the compression
  loop substitutes for a transaction, a transaction with that transaction's content.
\<close>

definition resolvable :: "TxStore \<Rightarrow> int \<Rightarrow> TxStore \<Rightarrow> BxBlockTransaction list \<Rightarrow> bool" where
  "resolvable store maxTs store2 txs =
     (\<forall>tx \<in> set txs. \<forall>sid. compressibleShortID store maxTs tx = Some sid \<longrightarrow>
        (\<exists>t. tsGetTxByShortID store2 sid = Some t \<and> txContent t = bbtContent tx))"

type_synonym to_broadcast_result = "Broadcast option \<times> ShortID list \<times> error option"

definition newRLPBlockBroadcast ::
  "blockProcessor \<Rightarrow> codec \<Rightarrow> int \<Rightarrow> BxBlock \<Rightarrow> NetworkNum \<Rightarrow> int \<Rightarrow> to_broadcast_result" where
  "newRLPBlockBroadcast bp cd now block networkNum minTxAge =
     (let maxTimestampForCompression = now - minTxAge;
          (usedShortIDs, txs) = compressLoop (txStore bp) maxTimestampForCompression (blkTxs block) [] [];
          rlpBlock = \<lparr>rlpHeader = blkHeader block, rlpTxs = txs, rlpTrailer = blkTrailer block,
                      rlpTotalDifficulty = blkTotalDifficulty block, rlpNumber = blkNumber block\<rparr>
      in case rlpEncodeToBytes cd rlpBlock of
           Inl err \<Rightarrow> (None, usedShortIDs, Some (ErrCodec err))
         | Inr encodedBlock \<Rightarrow>
             (Some (NewBlockBroadcast (blkHash block) EmptyHash (blkType block) encodedBlock
                      usedShortIDs networkNum),
              usedShortIDs, None))"

definition newSSZBlockBroadcast ::
  "blockProcessor \<Rightarrow> codec \<Rightarrow> int \<Rightarrow> BxBlock \<Rightarrow> NetworkNum \<Rightarrow> int \<Rightarrow> to_broadcast_result" where
  "newSSZBlockBroadcast bp cd now block networkNum minTxAge =
     (let maxTimestampForCompression = now - minTxAge;
          (usedShortIDs, txs) = compressLoop (txStore bp) maxTimestampForCompression (blkTxs block) [] [];
          sszBlock = \<lparr>sszBlock = blkTrailer block, sszTxs = txs,
                      sszNumber = bigInt_Uint64 (blkNumber block)\<rparr>
      in case MarshalSSZ cd sszBlock of
           Inl err \<Rightarrow> (None, usedShortIDs, Some (ErrCodec err))
         | Inr encodedBlock \<Rightarrow>
             (Some (NewBlockBroadcast (blkHash block) (blkBeaconHash block) (blkType block) encodedBlock
                      usedShortIDs networkNum),
              usedShortIDs, None))"

text \<open>
  \<^verbatim>\<open>BxBlockToBroadcast\<close>, called at time \<open>now\<close>: the result triple and the processor
  afterwards. A \<^verbatim>\<open>nil\<close> short-ID list is \<open>[]\<close>.
\<close>

definition BxBlockToBroadcast ::
  "blockProcessor \<Rightarrow> codec \<Rightarrow> int \<Rightarrow> BxBlock \<Rightarrow> NetworkNum \<Rightarrow> int \<Rightarrow>
   to_broadcast_result \<times> blockProcessor" where
  "BxBlockToBroadcast bp cd now block networkNum minTxAge =
     (if blkType block = BxBlockTypeEth \<and> \<not> ShouldProcess bp now (blkHash block) then
        ((None, [], Some ErrAlreadyProcessed), bp)
      else if isBeaconType (blkType block) \<and> \<not> ShouldProcess bp now (blkBeaconHash block) then
        ((None, [], Some ErrAlreadyProcessed), bp)
      else if blkType block = BxBlockTypeUnknown then
        ((None, [], Some ErrUnknownBlockType), bp)
      else
        (let (broadcastMessage, usedShortIDs, err) =
               (if blkType block = BxBlockTypeEth
                then newRLPBlockBroadcast bp cd now block networkNum minTxAge
                else newSSZBlockBroadcast bp cd now block networkNum minTxAge)
         in if err \<noteq> None then ((None, [], err), bp)
            else if blkType block = BxBlockTypeEth then
              ((broadcastMessage, usedShortIDs, None), markProcessed bp now (blkHash block))
            else
              ((broadcastMessage, usedShortIDs, None), markProcessed bp now (blkBeaconHash block))))"

text \<open>
  The loop \<^verbatim>\<open>for _, sid := range shortIDs\<close> of \<^verbatim>\<open>BxBlockFromBroadcast\<close>, appending to
  \<open>bxTransactions\<close> and \<open>missingShortIDs\<close>.
\<close>

fun lookupLoop ::
  "TxStore \<Rightarrow> ShortID list \<Rightarrow> BxTransaction list \<Rightarrow> ShortID list \<Rightarrow>
   BxTransaction list \<times> ShortID list" where
  "lookupLoop store [] bxTransactions missingShortIDs = (bxTransactions, missingShortIDs)"
| "lookupLoop store (sid # rest) bxTransactions missingShortIDs =
     (case tsGetTxByShortID store sid of
        Some bxTransaction \<Rightarrow> lookupLoop store rest (bxTransactions @ [bxTransaction]) missingShortIDs
      | None \<Rightarrow> lookupLoop store rest bxTransactions (missingShortIDs @ [sid]))"

text \<open>
  The loop of \<^verbatim>\<open>newBxBlockFromRLPBroadcast\<close> over the decoded entries, with
  \<open>compressedTransactionCount\<close>, \<open>txs\<close> and \<open>txsBytes\<close> as loop state. The index
  \<open>compressedTransactionCount\<close> is read only after the bound check.
\<close>

fun decompressRLPLoop ::
  "BxTransaction list \<Rightarrow> bxCompressedTransaction list \<Rightarrow> nat \<Rightarrow> BxBlockTransaction list \<Rightarrow> nat \<Rightarrow>
   error + (BxBlockTransaction list \<times> nat)" where
  "decompressRLPLoop bxTransactions [] compressedTransactionCount txs txsBytes = Inr (txs, txsBytes)"
| "decompressRLPLoop bxTransactions (tx # rest) compressedTransactionCount txs txsBytes =
     (if \<not> IsFullTransaction tx then
        (if compressedTransactionCount \<ge> length bxTransactions then Inl ErrMoreEmptyTransactions
         else
           decompressRLPLoop bxTransactions rest (compressedTransactionCount + 1)
             (txs @ [NewBxBlockTransaction (txHash (bxTransactions ! compressedTransactionCount))
                       (txContent (bxTransactions ! compressedTransactionCount))])
             (txsBytes + length (txContent (bxTransactions ! compressedTransactionCount))))
      else
        decompressRLPLoop bxTransactions rest compressedTransactionCount
          (txs @ [NewRawBxBlockTransaction (Transaction tx)])
          (txsBytes + length (Transaction tx)))"

definition newBxBlockFromRLPBroadcast ::
  "codec \<Rightarrow> Broadcast \<Rightarrow> BxTransaction list \<Rightarrow> error + BxBlock" where
  "newBxBlockFromRLPBroadcast cd broadcast bxTransactions =
     (case rlpDecodeBytes cd (bcBlock broadcast) of
        Inl err \<Rightarrow> Inl (ErrCodec err)
      | Inr rlpBlock \<Rightarrow>
          (case decompressRLPLoop bxTransactions (rlpTxs rlpBlock) 0 [] 0 of
             Inl err \<Rightarrow> Inl err
           | Inr (txs, txsBytes) \<Rightarrow>
               (let blockSize = int (rlp_ListSize (length (rlpHeader rlpBlock) + rlp_ListSize txsBytes
                                                    + length (rlpTrailer rlpBlock)))
                in Inr (NewRawBxBlock (bcHash broadcast) EmptyHash (bcBlockType broadcast)
                          (rlpHeader rlpBlock) txs (rlpTrailer rlpBlock)
                          (rlpTotalDifficulty rlpBlock) (rlpNumber rlpBlock) blockSize))))"

fun decompressSSZLoop ::
  "BxTransaction list \<Rightarrow> bxCompressedTransaction list \<Rightarrow> nat \<Rightarrow> BxBlockTransaction list \<Rightarrow> int \<Rightarrow>
   error + (BxBlockTransaction list \<times> int)" where
  "decompressSSZLoop bxTransactions [] compressedTransactionCount txs txsBytes = Inr (txs, txsBytes)"
| "decompressSSZLoop bxTransactions (tx # rest) compressedTransactionCount txs txsBytes =
     (if \<not> IsFullTransaction tx then
        (if compressedTransactionCount \<ge> length bxTransactions then Inl ErrMoreEmptyTransactions
         else
           decompressSSZLoop bxTransactions rest (compressedTransactionCount + 1)
             (txs @ [NewRawBxBlockTransaction (txContent (bxTransactions ! compressedTransactionCount))])
             (txsBytes + calcBeaconTransactionLength (txContent (bxTransactions ! compressedTransactionCount))))
      else
        decompressSSZLoop bxTransactions rest compressedTransactionCount
          (txs @ [NewRawBxBlockTransaction (Transaction tx)])
          (txsBytes + calcBeaconTransactionLength (Transaction tx)))"

text \<open>
  \<^verbatim>\<open>newBxBlockFromSSZBroadcast\<close>: the header and the total difficulty of the result are
  \<^verbatim>\<open>nil\<close>, the number is \<^verbatim>\<open>big.NewInt(int64(sszBlock.Number))\<close>.
\<close>

definition newBxBlockFromSSZBroadcast ::
  "codec \<Rightarrow> Broadcast \<Rightarrow> BxTransaction list \<Rightarrow> error + BxBlock" where
  "newBxBlockFromSSZBroadcast cd broadcast bxTransactions =
     (case UnmarshalSSZ cd (bcBlock broadcast) of
        Inl err \<Rightarrow> Inl (ErrCodec err)
      | Inr sszBlk \<Rightarrow>
          (case decompressSSZLoop bxTransactions (sszTxs sszBlk) 0 [] 0 of
             Inl err \<Rightarrow> Inl err
           | Inr (txs, txsBytes) \<Rightarrow>
               (let blockSize = int (length (sszBlock sszBlk)) + txsBytes
                in Inr (NewRawBxBlock (bcHash broadcast) (bcBeaconHash broadcast) (bcBlockType broadcast)
                          [] txs (sszBlock sszBlk) None (sint (sszNumber sszBlk)) blockSize))))"

type_synonym from_broadcast_result = "BxBlock option \<times> ShortID list \<times> error option"

definition BxBlockFromBroadcast ::
  "blockProcessor \<Rightarrow> codec \<Rightarrow> int \<Rightarrow> Broadcast \<Rightarrow> from_broadcast_result \<times> blockProcessor" where
  "BxBlockFromBroadcast bp cd now broadcast =
     (if bcBlockType broadcast = BxBlockTypeEth \<and> \<not> ShouldProcess bp now (bcHash broadcast) then
        ((None, [], Some ErrAlreadyProcessed), bp)
      else if isBeaconType (bcBlockType broadcast) \<and> Empty (bcBeaconHash broadcast) then
        ((None, [], Some ErrNotCompitableBeaconBlock), bp)
      else if isBeaconType (bcBlockType broadcast) \<and> \<not> ShouldProcess bp now (bcBeaconHash broadcast) then
        ((None, [], Some ErrAlreadyProcessed), bp)
      else if bcBlockType broadcast = BxBlockTypeUnknown then
        ((None, [], Some ErrUnknownBlockType), bp)
      else
        (let (bxTransactions, missingShortIDs) = lookupLoop (txStore bp) (bcShortIDs broadcast) [] []
         in if length missingShortIDs > 0 then ((None, missingShortIDs, Some ErrMissingShortIDs), bp)
            else if bcBlockType broadcast = BxBlockTypeEth then
              (case newBxBlockFromRLPBroadcast cd broadcast bxTransactions of
                 Inr block \<Rightarrow> ((Some block, missingShortIDs, None), markProcessed bp now (bcHash broadcast))
               | Inl err \<Rightarrow> ((None, missingShortIDs, Some err), bp))
            else
              (case newBxBlockFromSSZBroadcast cd broadcast bxTransactions of
                 Inr block \<Rightarrow>
                   ((Some block, missingShortIDs, None),
                    markProcessed (markProcessed bp now (bcHash broadcast)) now (bcBeaconHash broadcast))
               | Inl err \<Rightarrow> ((None, missingShortIDs, Some err), bp))))"

section \<open>The client handler (servers/clienthandler.go)\<close>

text \<open>
  Modelled from the spec: \<^verbatim>\<open>types.TxFlags\<close>, a bit mask of flags (paid, local-region,
  deliver-to-node, validators-only, next-validator, front-running-protection) in which every
  named flag is one bit; a mask is the set of its flags, \<^verbatim>\<open>|=\<close> adds a flag and
  \<^verbatim>\<open>RemoveFlags\<close> removes one.
\<close>

datatype TxFlag =
    TFPaidTx
  | TFLocalRegion
  | TFDeliverToNode
  | TFValidatorsOnly
  | TFNextValidator
  | TFFrontRunningProtection

type_synonym TxFlags = "TxFlag set"
type_synonym AccountID = string
type_synonym NetworkID = int

text \<open>
  Modelled from the spec: \<^verbatim>\<open>connections.RPCConn\<close> and \<^verbatim>\<open>connections.NewRPCConn\<close>, which
  the sources call but do not contain: the connection on whose behalf a transaction is
  submitted, with the account that \<^verbatim>\<open>GetAccountID()\<close> returns, the remote address, the
  network and the kind of connection.
\<close>

datatype ConnType = CloudAPI | Websocket

record RPCConn =
  rcAccountID :: AccountID
  rcRemoteAddress :: string
  rcNetworkNum :: NetworkNum
  rcConnectionType :: ConnType

definition NewRPCConn :: "AccountID \<Rightarrow> string \<Rightarrow> NetworkNum \<Rightarrow> ConnType \<Rightarrow> RPCConn" where
  "NewRPCConn a r n t = \<lparr>rcAccountID = a, rcRemoteAddress = r, rcNetworkNum = n, rcConnectionType = t\<rparr>"

text \<open>
  Modelled from the spec: \<^verbatim>\<open>bxmessage.Tx\<close> and \<^verbatim>\<open>bxmessage.NewTx\<close>. The spec: a transaction
  carries its hash, the raw encoded bytes, the flags, an originating account, a network
  identifier, up to two validator wallet targets and a fallback interval in milliseconds;
  \<^verbatim>\<open>NewTx\<close> leaves the wallet IDs empty and the fallback 0.
\<close>

record Tx =
  mHash :: SHA256Hash
  mContent :: bytes
  mNetworkNum :: NetworkNum
  mFlags :: TxFlags
  mAccountID :: AccountID
  mWalletID0 :: string
  mWalletID1 :: string
  mFallback :: "16 word"

definition NewTx :: "SHA256Hash \<Rightarrow> bytes \<Rightarrow> NetworkNum \<Rightarrow> TxFlags \<Rightarrow> AccountID \<Rightarrow> Tx" where
  "NewTx h content networkNum flags accountID =
     \<lparr>mHash = h, mContent = content, mNetworkNum = networkNum, mFlags = flags,
      mAccountID = accountID, mWalletID0 = [], mWalletID1 = [], mFallback = 0\<rparr>"

text \<open>A decoded \<^verbatim>\<open>ethtypes.Transaction\<close>: its chain ID and its hash.\<close>

record EthTx =
  etChainId :: int
  etHash :: SHA256Hash

text \<open>\<^verbatim>\<open>(*big.Int).Int64()\<close>: the low 64 bits of the magnitude, negated for a negative number.\<close>

definition bigInt_Int64 :: "int \<Rightarrow> int" where
  "bigInt_Int64 x =
     (let v = bigInt_Uint64 x in if x < 0 then sint (- v) else sint v)"

datatype txerr =
    ErrText string
  | ErrChainIDMismatch SHA256Hash NetworkID int
  | ErrNodeValidation SHA256Hash string
  | ErrNoSyncedWSProvider SHA256Hash
  | ErrNextValidatorNetwork
  | ErrNextValidatorMapNil
  | ErrNextValidatorEpochBlock

datatype RPCErrorCode = InvalidRequest | InvalidParams | MethodNotFound | InternalError | AccountIDError

datatype errData =
    ErrDataTx txerr
  | ErrParamsMissing
  | ErrParamsLength "string list"
  | ErrAllTransactionsInvalid
  | ErrCloseMessage

datatype replyValue =
    ReplyString string
  | ReplyTxHash string
  | ReplyTxHashes "string list"

datatype connMsg = Reply replyValue | ErrorMsg RPCErrorCode errData

text \<open>
  Modelled from the spec: \<^verbatim>\<open>PendingNextValidatorTxInfo\<close>, the entry of the pending table;
  the spec: the table records the transaction, the fallback, the time of the request and the
  source.
\<close>

record PendingNextValidatorTxInfo =
  pnTx :: Tx
  pnFallback :: "16 word"
  pnTimeOfRequest :: int
  pnSource :: RPCConn

text \<open>
  A timer armed with \<^verbatim>\<open>time.AfterFunc\<close>: its delay in nanoseconds and the transaction and
  connection that its function closes over.
\<close>

record FallbackTimer =
  ftDelay :: nat
  ftTx :: Tx
  ftWs :: RPCConn

definition MillisecondsToNanosecondsMultiplier :: nat where
  "MillisecondsToNanosecondsMultiplier = 1000000"

text \<open>
  What the handler calls outside this file, as parameters: the hex and transaction codecs,
  the synced node's \<^verbatim>\<open>SendTransaction\<close> (\<open>None\<close> when there is no synced provider; the
  function returns the error text, if any), the node's \<^verbatim>\<open>HandleMsg\<close> (the returned error
  text, if any; a \<^verbatim>\<open>nil\<close> transaction is \<open>None\<close>), \<^verbatim>\<open>uuid.FromString\<close>, and the constants of
  package \<^verbatim>\<open>bxgateway\<close> and \<^verbatim>\<open>types\<close>.
\<close>

record external =
  xDecodeHex :: "string \<Rightarrow> string + bytes"
  xUnmarshalBinary :: "bytes \<Rightarrow> string + EthTx"
  xRlpDecodeTx :: "bytes \<Rightarrow> string + EthTx"
  xRlpEncodeTx :: "EthTx \<Rightarrow> string + bytes"
  xSyncedProvider :: "(string \<Rightarrow> string option) option"
  xHandleMsg :: "Tx option \<Rightarrow> RPCConn \<Rightarrow> string option"
  xUUIDFromString :: "string \<Rightarrow> string option"
  xBSCMainnetNum :: NetworkNum
  xPolygonMainnetNum :: NetworkNum
  xBlockIntervalBSCMs :: int
  xBloxrouteAccountID :: AccountID

text \<open>
  The state that the handler shares and changes: the feed manager's account, chain and
  network, the next-validator maps (\<open>None\<close> is a \<^verbatim>\<open>nil\<close> map; the ordered map lists block
  height and wallet from oldest to newest), the mutex of the pending table and the table
  itself (keyed by the transaction hash), the registered subscription IDs, the calls made to
  the node's \<^verbatim>\<open>HandleMsg\<close>, the armed timers, and the JSON-RPC connection (whether it
  accepts a reply, and what was sent on it).
\<close>

record handlerState =
  fmAccountID :: AccountID
  fmChainID :: NetworkID
  fmNetworkNum :: NetworkNum
  fmNextValidatorMap :: "(64 word \<times> string) list option"
  fmValidatorStatusMap :: "(string \<rightharpoonup> bool) option"
  pendingLocked :: bool
  pendingBSCNextValidatorTxHashToInfo :: "SHA256Hash \<rightharpoonup> PendingNextValidatorTxInfo"
  idToClientSubscription :: "string set"
  handledMsgs :: "(Tx option \<times> RPCConn) list"
  timers :: "FallbackTimer list"
  connOpen :: bool
  connSent :: "connMsg list"

datatype 'a outcome = Returns 'a | Blocks | Panics

definition SendErrorMsg :: "handlerState \<Rightarrow> RPCErrorCode \<Rightarrow> errData \<Rightarrow> handlerState" where
  "SendErrorMsg s code d =
     (if connOpen s then s\<lparr>connSent := connSent s @ [ErrorMsg code d]\<rparr> else s)"

text \<open>\<^verbatim>\<open>reply\<close>: whether \<^verbatim>\<open>conn.Reply\<close> returned an error, and the state afterwards.\<close>

definition reply :: "handlerState \<Rightarrow> replyValue \<Rightarrow> bool \<times> handlerState" where
  "reply s v = (if connOpen s then (False, s\<lparr>connSent := connSent s @ [Reply v]\<rparr>) else (True, s))"

text \<open>\<^verbatim>\<open>hash.String()\<close>: two lower-case hexadecimal digits for every byte.\<close>

definition hexDigit :: "nat \<Rightarrow> char" where
  "hexDigit n = ''0123456789abcdef'' ! (n mod 16)"

definition hexString :: "SHA256Hash \<Rightarrow> string" where
  "hexString h = concat (map (\<lambda>b. [hexDigit (unat b div 16), hexDigit (unat b mod 16)]) h)"

text \<open>\<^verbatim>\<open>strings.Contains\<close>.\<close>

fun stringsContains :: "string \<Rightarrow> string \<Rightarrow> bool" where
  "stringsContains [] sub = (sub = [])"
| "stringsContains (c # s) sub = (take (length sub) (c # s) = sub \<or> stringsContains s sub)"

text \<open>
  The lookup of the second-newest validator in \<^verbatim>\<open>ProcessNextValidatorTx\<close>:
  \<^verbatim>\<open>n1ValidatorAccessible\<close>. \<^verbatim>\<open>Load\<close> on a \<^verbatim>\<open>nil\<close> status map dereferences \<^verbatim>\<open>nil\<close>.
\<close>

definition n1ValidatorAccessible ::
  "(64 word \<times> string) option \<Rightarrow> (string \<rightharpoonup> bool) option \<Rightarrow> bool outcome" where
  "n1ValidatorAccessible n1Validator validatorStatusMap =
     (case n1Validator of
        None \<Rightarrow> Returns False
      | Some (_, n1Wallet) \<Rightarrow>
          (case validatorStatusMap of
             None \<Rightarrow> Panics
           | Some status \<Rightarrow>
               Returns (case status n1Wallet of Some accessible \<Rightarrow> accessible | None \<Rightarrow> False)))"

type_synonym pending_table = "SHA256Hash \<rightharpoonup> PendingNextValidatorTxInfo"

text \<open>The last block of \<^verbatim>\<open>ProcessNextValidatorTx\<close>, for Polygon, and its final return.\<close>

definition polygonWallets ::
  "external \<Rightarrow> NetworkNum \<Rightarrow> (64 word \<times> string) option \<Rightarrow> 64 word \<times> string \<Rightarrow> Tx \<Rightarrow> Tx" where
  "polygonWallets ext networkNum n1Validator n2Validator tx =
     (if networkNum = xPolygonMainnetNum ext then
        (case n1Validator of
           Some (_, n1Wallet) \<Rightarrow> tx\<lparr>mWalletID0 := n1Wallet, mWalletID1 := snd n2Validator\<rparr>
         | None \<Rightarrow> tx\<lparr>mWalletID0 := snd n2Validator\<rparr>)
      else tx)"

text \<open>
  \<^verbatim>\<open>ProcessNextValidatorTx\<close> at time \<open>now\<close>: the returned pair, the transaction as the
  call leaves it (it is passed by pointer) and the pending table.
\<close>

definition ProcessNextValidatorTx ::
  "external \<Rightarrow> Tx \<Rightarrow> 16 word \<Rightarrow> (64 word \<times> string) list option \<Rightarrow> (string \<rightharpoonup> bool) option \<Rightarrow>
   NetworkNum \<Rightarrow> RPCConn \<Rightarrow> pending_table \<Rightarrow> int \<Rightarrow>
   ((bool \<times> txerr option) \<times> Tx \<times> pending_table) outcome" where
  "ProcessNextValidatorTx ext tx fallback nextValidatorMap validatorStatusMap networkNum source pending now =
     (if networkNum \<noteq> xBSCMainnetNum ext \<and> networkNum \<noteq> xPolygonMainnetNum ext then
        Returns ((False, Some ErrNextValidatorNetwork), tx, pending)
      else
        (case nextValidatorMap of
           None \<Rightarrow> Returns ((False, Some ErrNextValidatorMapNil), tx, pending)
         | Some m \<Rightarrow>
             (let tx1 = tx\<lparr>mFallback := fallback\<rparr> in
              case rev m of
                [] \<Rightarrow> Returns ((False, Some ErrNextValidatorEpochBlock), tx1, pending)
              | n2Validator # older \<Rightarrow>
                  (let n1Validator = (case older of [] \<Rightarrow> None | n1 # _ \<Rightarrow> Some n1) in
                   if networkNum = xBSCMainnetNum ext then
                     (case n1ValidatorAccessible n1Validator validatorStatusMap of
                        Panics \<Rightarrow> Panics
                      | Blocks \<Rightarrow> Blocks
                      | Returns accessible \<Rightarrow>
                          (if accessible then
                             Returns ((False, None),
                                      polygonWallets ext networkNum n1Validator n2Validator
                                        (tx1\<lparr>mWalletID0 := (case n1Validator of Some (_, w) \<Rightarrow> w | None \<Rightarrow> [])\<rparr>),
                                      pending)
                           else if fallback \<noteq> 0 \<and> fallback < word_of_int (xBlockIntervalBSCMs ext) then
                             Returns ((False, None), tx1, pending)
                           else
                             Returns ((True, None), tx1,
                                      pending(mHash tx1 \<mapsto>
                                        \<lparr>pnTx = tx1, pnFallback = fallback, pnTimeOfRequest = now,
                                         pnSource = source\<rparr>))))
                   else
                     Returns ((False, None),
                              polygonWallets ext networkNum n1Validator n2Validator tx1, pending)))))"

text \<open>
  The decoding at the head of \<^verbatim>\<open>ValidateTxFromExternalSource\<close>: binary first, RLP as the
  fallback; the error returned is the one of the binary decoder.
\<close>

definition decodeEthTx :: "external \<Rightarrow> bytes \<Rightarrow> string + EthTx" where
  "decodeEthTx ext txBytes =
     (case xUnmarshalBinary ext txBytes of
        Inr ethTx \<Rightarrow> Inr ethTx
      | Inl err \<Rightarrow> (case xRlpDecodeTx ext txBytes of Inl e \<Rightarrow> Inl err | Inr ethTx \<Rightarrow> Inr ethTx))"

definition txFlagsFor :: "bool \<Rightarrow> bool \<Rightarrow> bool \<Rightarrow> TxFlags" where
  "txFlagsFor validatorsOnly nextValidator frontRunningProtection =
     (let txFlags = {TFPaidTx, TFLocalRegion};
          txFlags = (if validatorsOnly then insert TFValidatorsOnly txFlags
                     else if nextValidator then insert TFNextValidator txFlags
                     else insert TFDeliverToNode txFlags)
      in if frontRunningProtection then insert TFFrontRunningProtection txFlags else txFlags)"

text \<open>
  The node validation at the end of \<^verbatim>\<open>ValidateTxFromExternalSource\<close>: the error it
  returns, if any.
\<close>

definition nodeValidation :: "external \<Rightarrow> string \<Rightarrow> Tx \<Rightarrow> txerr option" where
  "nodeValidation ext transaction tx =
     (case xSyncedProvider ext of
        Some sendTransaction \<Rightarrow>
          (case sendTransaction (''0x'' @ transaction) of
             Some err \<Rightarrow>
               (if \<not> stringsContains err ''already known''
                then Some (ErrNodeValidation (mHash tx) err) else None)
           | None \<Rightarrow> None)
      | None \<Rightarrow> Some (ErrNoSyncedWSProvider (mHash tx)))"

type_synonym validate_result = "Tx option \<times> bool \<times> txerr option"

definition ValidateTxFromExternalSource ::
  "external \<Rightarrow> string \<Rightarrow> bytes \<Rightarrow> bool \<Rightarrow> NetworkID \<Rightarrow> bool \<Rightarrow> 16 word \<Rightarrow>
   (64 word \<times> string) list option \<Rightarrow> (string \<rightharpoonup> bool) option \<Rightarrow> NetworkNum \<Rightarrow> AccountID \<Rightarrow> bool \<Rightarrow>
   RPCConn \<Rightarrow> pending_table \<Rightarrow> bool \<Rightarrow> int \<Rightarrow> (validate_result \<times> pending_table) outcome" where
  "ValidateTxFromExternalSource ext transaction txBytes validatorsOnly gatewayChainID nextValidator fallback
     nextValidatorMap validatorStatusMap networkNum accountID nodeValidationRequested source pending
     frontRunningProtection now =
     (case decodeEthTx ext txBytes of
        Inl err \<Rightarrow> Returns ((None, False, Some (ErrText err)), pending)
      | Inr ethTx \<Rightarrow>
          (if bigInt_Int64 (etChainId ethTx) \<noteq> 0 \<and> gatewayChainID \<noteq> 0 \<and>
              bigInt_Int64 (etChainId ethTx) \<noteq> gatewayChainID then
             Returns ((None, False,
                       Some (ErrChainIDMismatch (etHash ethTx) gatewayChainID (bigInt_Int64 (etChainId ethTx)))),
                      pending)
           else
             (case xRlpEncodeTx ext ethTx of
                Inl err \<Rightarrow> Returns ((None, False, Some (ErrText err)), pending)
              | Inr txContentBytes \<Rightarrow>
                  (let txFlags = txFlagsFor validatorsOnly nextValidator frontRunningProtection;
                       tx = NewTx (etHash ethTx) txContentBytes networkNum txFlags accountID;
                       finish = (\<lambda>tx pending.
                          if nodeValidationRequested \<and> TFNextValidator \<notin> mFlags tx \<and>
                             TFValidatorsOnly \<notin> mFlags tx then
                            (case nodeValidation ext transaction tx of
                               Some err \<Rightarrow> Returns ((None, False, Some err), pending)
                             | None \<Rightarrow> Returns ((Some tx, False, None), pending))
                          else Returns ((Some tx, False, None), pending))
                   in if nextValidator then
                        (case ProcessNextValidatorTx ext tx fallback nextValidatorMap validatorStatusMap
                                networkNum source pending now of
                           Panics \<Rightarrow> Panics
                         | Blocks \<Rightarrow> Blocks
                         | Returns ((txPendingReevaluation, err), tx', pending') \<Rightarrow>
                             (if err \<noteq> None then Returns ((None, False, err), pending')
                              else if txPendingReevaluation then Returns ((Some tx', True, None), pending')
                              else finish tx' pending'))
                      else finish tx pending))))"

text \<open>
  \<^verbatim>\<open>handleSingleTransaction\<close> at time \<open>now\<close>. \<^verbatim>\<open>Lock\<close> on the held mutex does not
  return; the early return after a failed \<^verbatim>\<open>DecodeHex\<close> leaves the mutex held; the final
  \<^verbatim>\<open>tx.Hash()\<close> dereferences \<open>tx\<close>. A transaction that is pending reevaluation is never
  \<^verbatim>\<open>nil\<close>, so the timer is armed with the transaction itself.
\<close>

definition handleSingleTransaction ::
  "external \<Rightarrow> handlerState \<Rightarrow> string \<Rightarrow> RPCConn \<Rightarrow> bool \<Rightarrow> bool \<Rightarrow> bool \<Rightarrow> 16 word \<Rightarrow>
   (64 word \<times> string) list option \<Rightarrow> (string \<rightharpoonup> bool) option \<Rightarrow> bool \<Rightarrow> bool \<Rightarrow> int \<Rightarrow>
   (string \<times> bool) outcome \<times> handlerState" where
  "handleSingleTransaction ext s transaction ws validatorsOnly sendError nextValidator fallback
     nextValidatorMap validatorStatusMap nodeValidationRequested frontRunningProtection now =
     (if pendingLocked s then (Blocks, s)
      else
        (let s1 = s\<lparr>pendingLocked := True\<rparr> in
         case xDecodeHex ext transaction of
           Inl err \<Rightarrow> (Returns ([], False), SendErrorMsg s1 InvalidParams (ErrDataTx (ErrText err)))
         | Inr txContentBytes \<Rightarrow>
             (case ValidateTxFromExternalSource ext transaction txContentBytes validatorsOnly (fmChainID s)
                     nextValidator fallback nextValidatorMap validatorStatusMap (fmNetworkNum s)
                     (rcAccountID ws) nodeValidationRequested ws
                     (pendingBSCNextValidatorTxHashToInfo s1) frontRunningProtection now of
                Panics \<Rightarrow> (Panics, s1)
              | Blocks \<Rightarrow> (Blocks, s1)
              | Returns ((tx, pendingReevaluation, err), pending') \<Rightarrow>
                  (let s2 = s1\<lparr>pendingBSCNextValidatorTxHashToInfo := pending', pendingLocked := False\<rparr> in
                   if err \<noteq> None \<and> sendError then
                     (Returns ([], False),
                      SendErrorMsg s2 InvalidParams
                        (ErrDataTx (case err of Some e \<Rightarrow> e | None \<Rightarrow> ErrText [])))
                   else if \<not> pendingReevaluation then
                     (let s3 = s2\<lparr>handledMsgs := handledMsgs s2 @ [(tx, ws)]\<rparr> in
                      case xHandleMsg ext tx ws of
                        Some e \<Rightarrow> (Returns ([], False), s3)
                      | None \<Rightarrow>
                          (case tx of
                             None \<Rightarrow> (Panics, s3)
                           | Some t \<Rightarrow> (Returns (hexString (mHash t), True), s3)))
                   else
                     (case tx of
                        None \<Rightarrow> (Panics, s2)
                      | Some t \<Rightarrow>
                          (if fallback \<noteq> 0 then
                             (Returns (hexString (mHash t), True),
                              s2\<lparr>timers := timers s2 @
                                   [\<lparr>ftDelay = unat fallback * MillisecondsToNanosecondsMultiplier,
                                     ftTx = t, ftWs = ws\<rparr>]\<rparr>)
                           else (Returns (hexString (mHash t), True), s2)))))))"


text \<open>The case \<^verbatim>\<open>jsonrpc.RPCBatchTx\<close> of \<^verbatim>\<open>Handle\<close>.\<close>

record RPCBatchTxPayload =
  btTransactions :: "string list"
  btValidatorsOnly :: bool
  btOriginalSenderAccountID :: string

fun batchLoop ::
  "external \<Rightarrow> handlerState \<Rightarrow> string list \<Rightarrow> RPCConn \<Rightarrow> bool \<Rightarrow> int \<Rightarrow> string list \<Rightarrow>
   string list outcome \<times> handlerState" where
  "batchLoop ext s [] ws validatorsOnly now txHashes = (Returns txHashes, s)"
| "batchLoop ext s (transaction # rest) ws validatorsOnly now txHashes =
     (case handleSingleTransaction ext s transaction ws validatorsOnly False False 0 None None False False now of
        (Returns (hashText, ok), s') \<Rightarrow>
          (if \<not> ok then batchLoop ext s' rest ws validatorsOnly now txHashes
           else batchLoop ext s' rest ws validatorsOnly now (txHashes @ [hashText]))
      | (Blocks, s') \<Rightarrow> (Blocks, s')
      | (Panics, s') \<Rightarrow> (Panics, s'))"

text \<open>
  \<open>params\<close> is the request's \<^verbatim>\<open>Params\<close> as \<^verbatim>\<open>json.Unmarshal\<close> reads it: \<open>None\<close> for a
  \<^verbatim>\<open>nil\<close> pointer, the error text or the payload otherwise.
\<close>

definition Handle_RPCBatchTx ::
  "external \<Rightarrow> handlerState \<Rightarrow> AccountID \<Rightarrow> string \<Rightarrow> (string + RPCBatchTxPayload) option \<Rightarrow> int \<Rightarrow>
   unit outcome \<times> handlerState" where
  "Handle_RPCBatchTx ext s connectionAccountID remoteAddress params now =
     (if fmAccountID s \<noteq> connectionAccountID then (Returns (), s)
      else
        (case params of
           None \<Rightarrow> (Panics, s)
         | Some (Inl err) \<Rightarrow> (Returns (), SendErrorMsg s InvalidParams (ErrDataTx (ErrText err)))
         | Some (Inr p) \<Rightarrow>
             (let ws = (if connectionAccountID = xBloxrouteAccountID ext
                        then NewRPCConn (btOriginalSenderAccountID p) remoteAddress (fmNetworkNum s) CloudAPI
                        else NewRPCConn connectionAccountID remoteAddress (fmNetworkNum s) Websocket)
              in case batchLoop ext s (btTransactions p) ws (btValidatorsOnly p) now [] of
                   (Returns txHashes, s') \<Rightarrow>
                     (if length txHashes = 0
                      then (Returns (), SendErrorMsg s' InvalidParams ErrAllTransactionsInvalid)
                      else (Returns (), snd (reply s' (ReplyTxHashes txHashes))))
                 | (Blocks, s') \<Rightarrow> (Blocks, s')
                 | (Panics, s') \<Rightarrow> (Panics, s'))))"

text \<open>
  A call of the node's \<^verbatim>\<open>HandleMsg\<close> as the batch path makes it: on the batch connection,
  and with a transaction (if not \<^verbatim>\<open>nil\<close>) that carries exactly the flags \<^verbatim>\<open>TFPaidTx\<close>,
  \<^verbatim>\<open>TFLocalRegion\<close> and one of \<^verbatim>\<open>TFValidatorsOnly\<close> (when requested) and
  \<^verbatim>\<open>TFDeliverToNode\<close>, and no fallback.
\<close>

definition batchMsgOk :: "bool \<Rightarrow> RPCConn \<Rightarrow> Tx option \<times> RPCConn \<Rightarrow> bool" where
  "batchMsgOk vo ws mc =
     (snd mc = ws \<and>
      (\<forall>t. fst mc = Some t \<longrightarrow>
         mFlags t = {TFPaidTx, TFLocalRegion, if vo then TFValidatorsOnly else TFDeliverToNode} \<and>
         mFallback t = 0))"

text \<open>
  Modelled from the spec: \<^verbatim>\<open>FeedManager.Unsubscribe\<close>, whose source is not part of the
  files at hand. The spec: \<^verbatim>\<open>unsubscribe(id)\<close> removes the subscription; the handler's log
  line for the error case reads "subscription id was not found". The result is whether an
  error is returned, and the state afterwards.
\<close>

definition Unsubscribe :: "handlerState \<Rightarrow> string \<Rightarrow> bool \<times> handlerState" where
  "Unsubscribe s uid =
     (if uid \<in> idToClientSubscription s
      then (False, s\<lparr>idToClientSubscription := idToClientSubscription s - {uid}\<rparr>)
      else (True, s))"

definition uuidNil :: string where
  "uuidNil = ''00000000-0000-0000-0000-000000000000''"

text \<open>
  The case \<^verbatim>\<open>jsonrpc.RPCUnsubscribe\<close> of \<^verbatim>\<open>Handle\<close>. \<open>params\<close> is \<open>None\<close> when
  \<^verbatim>\<open>req.Params\<close> is \<^verbatim>\<open>nil\<close>, and otherwise the string list that \<^verbatim>\<open>json.Unmarshal\<close> leaves in
  \<open>params\<close> (its error is ignored, as is the one of \<^verbatim>\<open>uuid.FromString\<close>, which leaves the
  nil UUID).
\<close>

definition Handle_RPCUnsubscribe ::
  "external \<Rightarrow> handlerState \<Rightarrow> string list option \<Rightarrow> handlerState" where
  "Handle_RPCUnsubscribe ext s reqParams =
     (case reqParams of
        None \<Rightarrow> SendErrorMsg s InvalidParams ErrParamsMissing
      | Some params \<Rightarrow>
          (if length params \<noteq> 1 then SendErrorMsg s InvalidParams (ErrParamsLength params)
           else
             (let uid = (case xUUIDFromString ext (params ! 0) of Some u \<Rightarrow> u | None \<Rightarrow> uuidNil);
                  (err, s1) = Unsubscribe s uid
              in if err then
                   (case reply s1 (ReplyString ''false'') of
                      (True, s2) \<Rightarrow> SendErrorMsg s2 InternalError ErrCloseMessage
                    | (False, s2) \<Rightarrow>
                        (case reply s2 (ReplyString ''true'') of
                           (True, s3) \<Rightarrow> SendErrorMsg s3 InternalError ErrCloseMessage
                         | (False, s3) \<Rightarrow> s3))
                 else
                   (case reply s1 (ReplyString ''true'') of
                      (True, s3) \<Rightarrow> SendErrorMsg s3 InternalError ErrCloseMessage
                    | (False, s3) \<Rightarrow> s3))))"

text \<open>
  A bridge state used to instantiate the theorems on saturated queues: every buffered queue
  has capacity 1 and holds one element; the rendezvous queue has capacity 0.
\<close>

definition sampleBlock :: "BxBlockType \<Rightarrow> BxBlock" where
  "sampleBlock t = NewRawBxBlock [1] [2] t [3] [] [4] None 7 0"

definition saturatedBridge :: BxBridge where
  "saturatedBridge =
     \<lparr>config = \<lparr>chanBuf = [''cfg''], chanCap = 1\<rparr>,
      transactionsFromNode =
        \<lparr>chanBuf = [\<lparr>tsTransactions = [], tsPeerEndpoint = ''n'', tsConnectionType = NodeTypeUnset\<rparr>],
         chanCap = 1\<rparr>,
      transactionsFromBDN =
        \<lparr>chanBuf = [\<lparr>tsTransactions = [], tsPeerEndpoint = ''n'', tsConnectionType = NodeTypeUnset\<rparr>],
         chanCap = 1\<rparr>,
      transactionHashesFromNode =
        \<lparr>chanBuf = [\<lparr>taHashes = [], taPeerID = ''p'', taPeerEndpoint = ''n''\<rparr>], chanCap = 1\<rparr>,
      transactionHashesRequests =
        \<lparr>chanBuf = [\<lparr>taHashes = [], taPeerID = ''p'', taPeerEndpoint = ''n''\<rparr>], chanCap = 1\<rparr>,
      beaconBlock = True,
      blocksFromNode =
        \<lparr>chanBuf = [\<lparr>bfnBlock = sampleBlock BxBlockTypeEth, bfnPeerEndpoint = ''n''\<rparr>], chanCap = 1\<rparr>,
      ethBlocksFromBDN = \<lparr>chanBuf = [sampleBlock BxBlockTypeEth], chanCap = 1\<rparr>,
      beaconBlocksFromBDN = \<lparr>chanBuf = [sampleBlock BxBlockTypeBeaconCapella], chanCap = 1\<rparr>,
      confirmedBlockFromNode =
        \<lparr>chanBuf = [\<lparr>bfnBlock = sampleBlock BxBlockTypeEth, bfnPeerEndpoint = ''n''\<rparr>], chanCap = 1\<rparr>,
      noActiveBlockchainPeers = makeChan 0,
      blockchainStatusRequest = \<lparr>chanBuf = [()], chanCap = 1\<rparr>,
      blockchainStatusResponse = \<lparr>chanBuf = [[]], chanCap = 1\<rparr>,
      nodeConnectionCheckRequest = \<lparr>chanBuf = [()], chanCap = 1\<rparr>,
      nodeConnectionCheckResponse = \<lparr>chanBuf = [''n''], chanCap = 1\<rparr>,
      blockchainConnectionStatus =
        \<lparr>chanBuf = [\<lparr>csPeerEndpoint = ''n'', csIsConnected = True, csIsDynamic = False\<rparr>], chanCap = 1\<rparr>,
      disconnectEvent = \<lparr>chanBuf = [''n''], chanCap = 1\<rparr>,
      validatorInfo = \<lparr>chanBuf = [\<lparr>vliValidatorList = [], vliBlockHeight = 0\<rparr>], chanCap = 1\<rparr>\<rparr>"

text \<open>
  Values used to instantiate the block-processor theorems: a store that knows one
  transaction under short ID 7, and a codec that supports exactly one RLP envelope and one
  SSZ envelope (and inverts what it encodes).
\<close>

definition hashOf :: "byte \<Rightarrow> SHA256Hash" where
  "hashOf b = replicate 32 b"

definition emptyStore :: TxStore where
  "emptyStore = \<lparr>tsGet = (\<lambda>h. None), tsGetTxByShortID = (\<lambda>sid. None)\<rparr>"

definition knownTx :: BxTransaction where
  "knownTx = \<lparr>txHash = hashOf 5, txContent = [0xF8, 0x01], txShortIDs = [7], txAddTime = 0\<rparr>"

definition sampleStore :: TxStore where
  "sampleStore =
     \<lparr>tsGet = (\<lambda>h. if h = hashOf 5 then Some knownTx else None),
      tsGetTxByShortID = (\<lambda>sid. if sid = 7 then Some knownTx else None)\<rparr>"

definition singleCodec :: "bxBlockRLP \<Rightarrow> bxBlockSSZ \<Rightarrow> codec" where
  "singleCodec r s =
     \<lparr>rlpEncodeToBytes = (\<lambda>e. if e = r then Inr [0xC1] else Inl ''unsupported''),
      rlpDecodeBytes = (\<lambda>b. if b = [0xC1] then Inr r else Inl ''malformed''),
      MarshalSSZ = (\<lambda>e. if e = s then Inr [0x01] else Inl ''unsupported''),
      UnmarshalSSZ = (\<lambda>b. if b = [0x01] then Inr s else Inl ''malformed'')\<rparr>"

definition ethBlock1 :: BxBlock where
  "ethBlock1 =
     NewRawBxBlock (hashOf 1) EmptyHash BxBlockTypeEth [0xC0]
       [NewBxBlockTransaction (hashOf 5) [0xF8, 0x01], NewBxBlockTransaction (hashOf 6) [0xF8, 0x02]]
       [0xC0] (Some 10) 3 0"

definition ethEnvelope1 :: bxBlockRLP where
  "ethEnvelope1 =
     \<lparr>rlpHeader = [0xC0],
      rlpTxs = [\<lparr>IsFullTransaction = False, Transaction = []\<rparr>,
                \<lparr>IsFullTransaction = True, Transaction = [0xF8, 0x02]\<rparr>],
      rlpTrailer = [0xC0], rlpTotalDifficulty = Some 10, rlpNumber = 3\<rparr>"

definition beaconBlock1 :: BxBlock where
  "beaconBlock1 =
     NewRawBxBlock (hashOf 1) (hashOf 2) BxBlockTypeBeaconCapella [0x09]
       [NewBxBlockTransaction (hashOf 5) [0xF8, 0x01], NewBxBlockTransaction (hashOf 6) [0xF8, 0x02]]
       [0x0A] None 3 0"

definition beaconEnvelope1 :: bxBlockSSZ where
  "beaconEnvelope1 =
     \<lparr>sszBlock = [0x0A],
      sszTxs = [\<lparr>IsFullTransaction = False, Transaction = []\<rparr>,
                \<lparr>IsFullTransaction = True, Transaction = [0xF8, 0x02]\<rparr>],
      sszNumber = 3\<rparr>"

definition codec1 :: codec where
  "codec1 = singleCodec ethEnvelope1 beaconEnvelope1"

text \<open>
  Values used to instantiate the client-handler theorems: externals that accept the one
  hex text \<open>f801\<close>, on BSC (network 10, block interval 3000 ms), and a handler state whose
  second-newest validator \<open>w1\<close> is marked inaccessible.
\<close>

definition ext1 :: external where
  "ext1 =
     \<lparr>xDecodeHex = (\<lambda>t. if t = ''f801'' then Inr [0xF8, 0x01] else Inl ''invalid hex''),
      xUnmarshalBinary =
        (\<lambda>b. if b = [0xF8, 0x01] then Inr \<lparr>etChainId = 56, etHash = hashOf 9\<rparr> else Inl ''malformed''),
      xRlpDecodeTx = (\<lambda>b. Inl ''malformed''),
      xRlpEncodeTx = (\<lambda>t. Inr [0xF8, 0x01]),
      xSyncedProvider = None,
      xHandleMsg = (\<lambda>tx ws. None),
      xUUIDFromString = (\<lambda>t. if length t = 36 then Some t else None),
      xBSCMainnetNum = 10,
      xPolygonMainnetNum = 36,
      xBlockIntervalBSCMs = 3000,
      xBloxrouteAccountID = ''bloxroute''\<rparr>"

definition uuid1 :: string where
  "uuid1 = ''11111111-1111-1111-1111-111111111111''"

definition uuid2 :: string where
  "uuid2 = ''22222222-2222-2222-2222-222222222222''"

definition state1 :: handlerState where
  "state1 =
     \<lparr>fmAccountID = ''acct'', fmChainID = 56, fmNetworkNum = 10,
      fmNextValidatorMap = Some [(100, ''w1''), (101, ''w2'')],
      fmValidatorStatusMap = Some (\<lambda>w. if w = ''w1'' then Some False else None),
      pendingLocked = False,
      pendingBSCNextValidatorTxHashToInfo = Map.empty,
      idToClientSubscription = {uuid1},
      handledMsgs = [], timers = [], connOpen = True, connSent = []\<rparr>"

definition ws1 :: RPCConn where
  "ws1 = NewRPCConn ''acct'' ''10.0.0.1'' 10 Websocket"

section \<open>Theorems\<close>

lemma bigInt_SetBytes_single: "bigInt_SetBytes [b] = uint b"
  by (simp add: bigInt_SetBytes_def)

lemma uint_byte_bound: "uint (b :: byte) < 256"
  using uint_bounded [of b] by simp

lemma minus_of_first_byte:
  "sint (bigInt_Uint64 (bigInt_SetBytes [b] - bigInt_SetBytes [0xb7])) = \<bar>uint b - 0xB7\<bar>"
proof -
  have b: "0 \<le> uint b" "uint b < 256"
    using uint_byte_bound [of b] by simp_all
  then have "\<bar>uint b - 183\<bar> \<le> 183" "0 \<le> \<bar>uint b - 183\<bar>"
    by linarith+
  then have r: "\<bar>uint b - 183\<bar> < 2 ^ 63" "- (2 ^ 63) \<le> \<bar>uint b - 183\<bar>"
    by simp_all
  have "sint (word_of_int \<bar>uint b - 183\<bar> :: 64 word) = \<bar>uint b - 183\<bar>"
    using r by (simp add: sint_sbintrunc' signed_take_bit_int_eq_self)
  then show ?thesis
    by (simp add: bigInt_Uint64_def bigInt_SetBytes_single)
qed

text \<open>
  C5. On the one-byte input \<open>0x81\<close> the claimed length is
  \<open>1 + 4 - (0x81 - 0xB7 + 1) = 58\<close>. The code returns \<open>1 + 4 - (54 + 1) = -50\<close>, a negative
  length: the difference \<open>0x81 - 0xB7 = -54\<close> loses its sign in \<^verbatim>\<open>Uint64()\<close>, so 55 bytes
  are subtracted, where the comment in the source speaks of an overhead of 1 to 3 bytes.
\<close>

theorem C5_first_byte_0x81:
  "calcBeaconTransactionLength [0x81] = -50 \<and>
   calcBeaconTransactionLength [0x81] < 0 \<and>
   int (length [0x81 :: byte]) + 4 - (uint (0x81 :: byte) - 0xB7 + 1) = 58 \<and>
   calcBeaconTransactionLength [0x81] \<noteq> int (length [0x81 :: byte]) + 4 - (uint (0x81 :: byte) - 0xB7 + 1)"
  by (simp add: calcBeaconTransactionLength_def Let_def minus_of_first_byte)

text \<open>
  On the ranges the length correction is written for, the function returns the stated
  values: \<open>0\<close> for the empty input, \<open>len + 4\<close> for a first byte of at least \<open>0xC0\<close>,
  \<open>len + 4 - 2\<close> for the first byte \<open>0x80\<close>, and \<open>len + 4 - (firstByte - 0xB7 + 1)\<close> for
  first bytes \<open>0xB7 .. 0xBF\<close>.
\<close>

lemma calcBeaconTransactionLength_designed_ranges:
  "calcBeaconTransactionLength [] = 0 \<and>
   (0xC0 \<le> b \<longrightarrow> calcBeaconTransactionLength (b # tx) = int (length (b # tx)) + 4) \<and>
   (b = 0x80 \<longrightarrow> calcBeaconTransactionLength (b # tx) = int (length (b # tx)) + 4 - 2) \<and>
   (0xB7 \<le> b \<and> b < 0xC0 \<longrightarrow>
      calcBeaconTransactionLength (b # tx) = int (length (b # tx)) + 4 - (uint b - 0xB7 + 1))"
proof -
  have le: "0xB7 \<le> b \<Longrightarrow> \<bar>uint b - 0xB7\<bar> = uint b - 0xB7"
    by (simp add: word_le_def)
  have c0: "0xC0 \<le> b \<Longrightarrow> \<not> b < 0xC0"
    by simp
  have b7: "0xB7 \<le> b \<Longrightarrow> 0x80 < b \<and> b \<noteq> 0x80"
    by (auto simp: word_le_def word_less_def)
  show ?thesis
    using le c0 b7
    by (auto simp: calcBeaconTransactionLength_def Let_def minus_of_first_byte)
qed

subsection \<open>Bridge\<close>

lemma chanTrySend_at_capacity: "chanAtCapacity c \<Longrightarrow> chanTrySend c v = None"
  by (simp add: chanAtCapacity_def chanTrySend_def chanHasRoom_def)

lemma chanSend_at_capacity: "chanAtCapacity c \<Longrightarrow> chanSend c v = None"
  by (simp add: chanAtCapacity_def chanSend_def chanHasRoom_def)

lemma chanRecv_room:
  "chanAtCapacity c \<Longrightarrow> chanRecv c = Some (x, c') \<Longrightarrow> chanHasRoom c'"
  by (auto simp: chanAtCapacity_def chanRecv_def chanHasRoom_def split: list.splits)

lemma chanTrySend_after_recv:
  "chanAtCapacity c \<Longrightarrow> chanRecv c = Some (x, c') \<Longrightarrow> chanTrySend c' v \<noteq> None"
  using chanRecv_room [of c x c'] by (simp add: chanTrySend_def)

lemma chanSend_after_recv:
  "chanAtCapacity c \<Longrightarrow> chanRecv c = Some (x, c') \<Longrightarrow> chanSend c' v \<noteq> None"
  using chanRecv_room [of c x c'] by (simp add: chanSend_def)

lemma chanRecv_fifo:
  "chanTrySend c v = Some c' \<Longrightarrow> chanBuf c = [] \<Longrightarrow> chanRecv c' = Some (v, c)"
  by (auto simp: chanTrySend_def chanRecv_def split: if_splits)

text \<open>
  C6 (counterexample). On a freshly constructed bridge one \<^verbatim>\<open>UpdateNetworkConfig\<close> fills
  the config queue (capacity 1); the next \<^verbatim>\<open>UpdateNetworkConfig\<close> does not return
  \<^verbatim>\<open>ErrChannelFull\<close>: the plain send has no \<^verbatim>\<open>default\<close> branch and the call does not
  return at all.
\<close>

theorem C6_counterexample:
  "UpdateNetworkConfig (NewBxBridge False) ''cfg1'' =
     Some (None, (NewBxBridge False)\<lparr>config := \<lparr>chanBuf = [''cfg1''], chanCap = 1\<rparr>\<rparr>) \<and>
   chanAtCapacity (config ((NewBxBridge False)\<lparr>config := \<lparr>chanBuf = [''cfg1''], chanCap = 1\<rparr>\<rparr>)) \<and>
   UpdateNetworkConfig ((NewBxBridge False)\<lparr>config := \<lparr>chanBuf = [''cfg1''], chanCap = 1\<rparr>\<rparr>) ''cfg2''
     \<noteq> Some (Some ErrChannelFull, (NewBxBridge False)\<lparr>config := \<lparr>chanBuf = [''cfg1''], chanCap = 1\<rparr>\<rparr>) \<and>
   UpdateNetworkConfig ((NewBxBridge False)\<lparr>config := \<lparr>chanBuf = [''cfg1''], chanCap = 1\<rparr>\<rparr>) ''cfg2''
     = None"
  by (simp add: UpdateNetworkConfig_def NewBxBridge_def makeChan_def chanSend_def chanHasRoom_def
      chanAtCapacity_def)

lemma at_capacity_no_room: "chanAtCapacity c \<Longrightarrow> \<not> chanHasRoom c"
  by (simp add: chanAtCapacity_def chanHasRoom_def)

lemma enqueue_AnnounceTransactionHashes_transactionHashesFromNode:
  "(chanAtCapacity (transactionHashesFromNode b) \<longrightarrow>
   AnnounceTransactionHashes b peerID hashes endpoint = (Some ErrChannelFull, b) \<and>
   (\<forall>x c. chanRecv (transactionHashesFromNode b) = Some (x, c) \<longrightarrow>
      fst (AnnounceTransactionHashes (b\<lparr>transactionHashesFromNode := c\<rparr>) peerID hashes endpoint) = None))"
  by (auto simp: AnnounceTransactionHashes_def chanTrySend_def at_capacity_no_room dest: chanRecv_room
      split: option.splits BxBlockType.splits)

lemma enqueue_RequestTransactionsFromNode_transactionHashesRequests:
  "(chanAtCapacity (transactionHashesRequests b) \<longrightarrow>
   RequestTransactionsFromNode b peerID hashes = (Some ErrChannelFull, b) \<and>
   (\<forall>x c. chanRecv (transactionHashesRequests b) = Some (x, c) \<longrightarrow>
      fst (RequestTransactionsFromNode (b\<lparr>transactionHashesRequests := c\<rparr>) peerID hashes) = None))"
  by (auto simp: RequestTransactionsFromNode_def chanTrySend_def at_capacity_no_room dest: chanRecv_room
      split: option.splits BxBlockType.splits)

lemma enqueue_SendTransactionsFromBDN_transactionsFromBDN:
  "(chanAtCapacity (transactionsFromBDN b) \<longrightarrow>
   SendTransactionsFromBDN b transactions = (Some ErrChannelFull, b) \<and>
   (\<forall>x c. chanRecv (transactionsFromBDN b) = Some (x, c) \<longrightarrow>
      fst (SendTransactionsFromBDN (b\<lparr>transactionsFromBDN := c\<rparr>) transactions) = None))"
  by (auto simp: SendTransactionsFromBDN_def chanTrySend_def at_capacity_no_room dest: chanRecv_room
      split: option.splits BxBlockType.splits)

lemma enqueue_SendTransactionsToBDN_transactionsFromNode:
  "(chanAtCapacity (transactionsFromNode b) \<longrightarrow>
   SendTransactionsToBDN b txs endpoint = (Some ErrChannelFull, b) \<and>
   (\<forall>x c. chanRecv (transactionsFromNode b) = Some (x, c) \<longrightarrow>
      fst (SendTransactionsToBDN (b\<lparr>transactionsFromNode := c\<rparr>) txs endpoint) = None))"
  by (auto simp: SendTransactionsToBDN_def chanTrySend_def at_capacity_no_room dest: chanRecv_room
      split: option.splits BxBlockType.splits)

lemma enqueue_SendConfirmedBlockToGateway_confirmedBlockFromNode:
  "(chanAtCapacity (confirmedBlockFromNode b) \<longrightarrow>
   SendConfirmedBlockToGateway b block endpoint = (Some ErrChannelFull, b) \<and>
   (\<forall>x c. chanRecv (confirmedBlockFromNode b) = Some (x, c) \<longrightarrow>
      fst (SendConfirmedBlockToGateway (b\<lparr>confirmedBlockFromNode := c\<rparr>) block endpoint) = None))"
  by (auto simp: SendConfirmedBlockToGateway_def chanTrySend_def at_capacity_no_room dest: chanRecv_room
      split: option.splits BxBlockType.splits)

lemma enqueue_SendBlockToBDN_blocksFromNode:
  "(chanAtCapacity (blocksFromNode b) \<longrightarrow>
   SendBlockToBDN b block endpoint = (Some ErrChannelFull, b) \<and>
   (\<forall>x c. chanRecv (blocksFromNode b) = Some (x, c) \<longrightarrow>
      fst (SendBlockToBDN (b\<lparr>blocksFromNode := c\<rparr>) block endpoint) = None))"
  by (auto simp: SendBlockToBDN_def chanTrySend_def at_capacity_no_room dest: chanRecv_room
      split: option.splits BxBlockType.splits)

lemma enqueue_SendBlockToNode_ethBlocksFromBDN:
  "(blkType block = BxBlockTypeEth \<and> chanAtCapacity (ethBlocksFromBDN b) \<longrightarrow>
   SendBlockToNode b block = (Some ErrChannelFull, b) \<and>
   (\<forall>x c. chanRecv (ethBlocksFromBDN b) = Some (x, c) \<longrightarrow>
      fst (SendBlockToNode (b\<lparr>ethBlocksFromBDN := c\<rparr>) block) = None))"
  by (auto simp: SendBlockToNode_def chanTrySend_def at_capacity_no_room dest: chanRecv_room
      split: option.splits BxBlockType.splits)

lemma enqueue_SendBlockToNode_beaconBlocksFromBDN:
  "(blkType block \<notin> {BxBlockTypeEth, BxBlockTypeUnknown} \<and> beaconBlock b \<and> chanAtCapacity (beaconBlocksFromBDN b) \<longrightarrow>
   SendBlockToNode b block = (Some ErrChannelFull, b) \<and>
   (\<forall>x c. chanRecv (beaconBlocksFromBDN b) = Some (x, c) \<longrightarrow>
      fst (SendBlockToNode (b\<lparr>beaconBlocksFromBDN := c\<rparr>) block) = None))"
  by (auto simp: SendBlockToNode_def chanTrySend_def at_capacity_no_room dest: chanRecv_room
      split: option.splits BxBlockType.splits)

lemma enqueue_SendNoActiveBlockchainPeersAlert_noActiveBlockchainPeers:
  "(chanAtCapacity (noActiveBlockchainPeers b) \<longrightarrow>
   SendNoActiveBlockchainPeersAlert b = (Some ErrChannelFull, b) \<and>
   (\<forall>x c. chanRecv (noActiveBlockchainPeers b) = Some (x, c) \<longrightarrow>
      fst (SendNoActiveBlockchainPeersAlert (b\<lparr>noActiveBlockchainPeers := c\<rparr>)) = None))"
  by (auto simp: SendNoActiveBlockchainPeersAlert_def chanTrySend_def at_capacity_no_room dest: chanRecv_room
      split: option.splits BxBlockType.splits)

lemma enqueue_SendBlockchainStatusRequest_blockchainStatusRequest:
  "(chanAtCapacity (blockchainStatusRequest b) \<longrightarrow>
   SendBlockchainStatusRequest b = (Some ErrChannelFull, b) \<and>
   (\<forall>x c. chanRecv (blockchainStatusRequest b) = Some (x, c) \<longrightarrow>
      fst (SendBlockchainStatusRequest (b\<lparr>blockchainStatusRequest := c\<rparr>)) = None))"
  by (auto simp: SendBlockchainStatusRequest_def chanTrySend_def at_capacity_no_room dest: chanRecv_room
      split: option.splits BxBlockType.splits)

lemma enqueue_SendBlockchainStatusResponse_blockchainStatusResponse:
  "(chanAtCapacity (blockchainStatusResponse b) \<longrightarrow>
   SendBlockchainStatusResponse b endpoints = (Some ErrChannelFull, b) \<and>
   (\<forall>x c. chanRecv (blockchainStatusResponse b) = Some (x, c) \<longrightarrow>
      fst (SendBlockchainStatusResponse (b\<lparr>blockchainStatusResponse := c\<rparr>) endpoints) = None))"
  by (auto simp: SendBlockchainStatusResponse_def chanTrySend_def at_capacity_no_room dest: chanRecv_room
      split: option.splits BxBlockType.splits)

lemma enqueue_SendNodeConnectionCheckRequest_nodeConnectionCheckRequest:
  "(chanAtCapacity (nodeConnectionCheckRequest b) \<longrightarrow>
   SendNodeConnectionCheckRequest b = (Some ErrChannelFull, b) \<and>
   (\<forall>x c. chanRecv (nodeConnectionCheckRequest b) = Some (x, c) \<longrightarrow>
      fst (SendNodeConnectionCheckRequest (b\<lparr>nodeConnectionCheckRequest := c\<rparr>)) = None))"
  by (auto simp: SendNodeConnectionCheckRequest_def chanTrySend_def at_capacity_no_room dest: chanRecv_room
      split: option.splits BxBlockType.splits)

lemma enqueue_SendNodeConnectionCheckResponse_nodeConnectionCheckResponse:
  "(chanAtCapacity (nodeConnectionCheckResponse b) \<longrightarrow>
   SendNodeConnectionCheckResponse b endpoint = (Some ErrChannelFull, b) \<and>
   (\<forall>x c. chanRecv (nodeConnectionCheckResponse b) = Some (x, c) \<longrightarrow>
      fst (SendNodeConnectionCheckResponse (b\<lparr>nodeConnectionCheckResponse := c\<rparr>) endpoint) = None))"
  by (auto simp: SendNodeConnectionCheckResponse_def chanTrySend_def at_capacity_no_room dest: chanRecv_room
      split: option.splits BxBlockType.splits)

lemma enqueue_SendValidatorListInfo_validatorInfo:
  "(chanAtCapacity (validatorInfo b) \<longrightarrow>
   SendValidatorListInfo b info = (Some ErrChannelFull, b) \<and>
   (\<forall>x c. chanRecv (validatorInfo b) = Some (x, c) \<longrightarrow>
      fst (SendValidatorListInfo (b\<lparr>validatorInfo := c\<rparr>) info) = None))"
  by (auto simp: SendValidatorListInfo_def chanTrySend_def at_capacity_no_room dest: chanRecv_room
      split: option.splits BxBlockType.splits)

lemma enqueue_SendBlockchainConnectionStatus_blockchainConnectionStatus:
  "(chanAtCapacity (blockchainConnectionStatus b) \<longrightarrow>
   SendBlockchainConnectionStatus b connStatus = (Some ErrChannelFull, b) \<and>
   (\<forall>x c. chanRecv (blockchainConnectionStatus b) = Some (x, c) \<longrightarrow>
      fst (SendBlockchainConnectionStatus (b\<lparr>blockchainConnectionStatus := c\<rparr>) connStatus) = None))"
  by (auto simp: SendBlockchainConnectionStatus_def chanTrySend_def at_capacity_no_room dest: chanRecv_room
      split: option.splits BxBlockType.splits)

lemma enqueue_SendDisconnectEvent_disconnectEvent:
  "(chanAtCapacity (disconnectEvent b) \<longrightarrow>
   SendDisconnectEvent b endpoint = (Some ErrChannelFull, b) \<and>
   (\<forall>x c. chanRecv (disconnectEvent b) = Some (x, c) \<longrightarrow>
      fst (SendDisconnectEvent (b\<lparr>disconnectEvent := c\<rparr>) endpoint) = None))"
  by (auto simp: SendDisconnectEvent_def chanTrySend_def at_capacity_no_room dest: chanRecv_room
      split: option.splits BxBlockType.splits)

lemma enqueue_UpdateNetworkConfig:
  "(chanHasRoom (config b) \<longrightarrow>
      UpdateNetworkConfig b cfg = Some (None, b\<lparr>config := (config b)\<lparr>chanBuf := chanBuf (config b) @ [cfg]\<rparr>\<rparr>)) \<and>
   (chanAtCapacity (config b) \<longrightarrow>
      UpdateNetworkConfig b cfg = None \<and>
      (\<forall>x c. chanRecv (config b) = Some (x, c) \<longrightarrow>
         (\<exists>b'. UpdateNetworkConfig (b\<lparr>config := c\<rparr>) cfg = Some (None, b'))))"
  by (auto simp: UpdateNetworkConfig_def chanSend_def at_capacity_no_room dest: chanRecv_room
      split: option.splits)

text \<open>
  C6 (amended). Every bridge enqueue operation other than \<^verbatim>\<open>UpdateNetworkConfig\<close> is
  non-blocking: in every bridge state (between calls, no receiver parked on the queue) in
  which its target queue is at capacity it returns
  \<^verbatim>\<open>ErrChannelFull\<close> and leaves the bridge as it was, and after one element has been
  received from that queue one subsequent enqueue succeeds. \<^verbatim>\<open>UpdateNetworkConfig\<close> is a
  plain send on the config queue: it returns \<^verbatim>\<open>nil\<close> when the queue has room, does not
  return while the queue is at capacity, and succeeds again after one element has been
  received.
\<close>

theorem C6_bridge_enqueue:
  "(chanAtCapacity (transactionHashesFromNode b) \<longrightarrow>
      AnnounceTransactionHashes b peerID hashes endpoint = (Some ErrChannelFull, b) \<and>
      (\<forall>x c. chanRecv (transactionHashesFromNode b) = Some (x, c) \<longrightarrow>
         fst (AnnounceTransactionHashes (b\<lparr>transactionHashesFromNode := c\<rparr>) peerID hashes endpoint) = None)) \<and>
   (chanAtCapacity (transactionHashesRequests b) \<longrightarrow>
      RequestTransactionsFromNode b peerID hashes = (Some ErrChannelFull, b) \<and>
      (\<forall>x c. chanRecv (transactionHashesRequests b) = Some (x, c) \<longrightarrow>
         fst (RequestTransactionsFromNode (b\<lparr>transactionHashesRequests := c\<rparr>) peerID hashes) = None)) \<and>
   (chanAtCapacity (transactionsFromBDN b) \<longrightarrow>
      SendTransactionsFromBDN b transactions = (Some ErrChannelFull, b) \<and>
      (\<forall>x c. chanRecv (transactionsFromBDN b) = Some (x, c) \<longrightarrow>
         fst (SendTransactionsFromBDN (b\<lparr>transactionsFromBDN := c\<rparr>) transactions) = None)) \<and>
   (chanAtCapacity (transactionsFromNode b) \<longrightarrow>
      SendTransactionsToBDN b txs endpoint = (Some ErrChannelFull, b) \<and>
      (\<forall>x c. chanRecv (transactionsFromNode b) = Some (x, c) \<longrightarrow>
         fst (SendTransactionsToBDN (b\<lparr>transactionsFromNode := c\<rparr>) txs endpoint) = None)) \<and>
   (chanAtCapacity (confirmedBlockFromNode b) \<longrightarrow>
      SendConfirmedBlockToGateway b block endpoint = (Some ErrChannelFull, b) \<and>
      (\<forall>x c. chanRecv (confirmedBlockFromNode b) = Some (x, c) \<longrightarrow>
         fst (SendConfirmedBlockToGateway (b\<lparr>confirmedBlockFromNode := c\<rparr>) block endpoint) = None)) \<and>
   (chanAtCapacity (blocksFromNode b) \<longrightarrow>
      SendBlockToBDN b block endpoint = (Some ErrChannelFull, b) \<and>
      (\<forall>x c. chanRecv (blocksFromNode b) = Some (x, c) \<longrightarrow>
         fst (SendBlockToBDN (b\<lparr>blocksFromNode := c\<rparr>) block endpoint) = None)) \<and>
   (blkType ethBlock = BxBlockTypeEth \<and> chanAtCapacity (ethBlocksFromBDN b) \<longrightarrow>
      SendBlockToNode b ethBlock = (Some ErrChannelFull, b) \<and>
      (\<forall>x c. chanRecv (ethBlocksFromBDN b) = Some (x, c) \<longrightarrow>
         fst (SendBlockToNode (b\<lparr>ethBlocksFromBDN := c\<rparr>) ethBlock) = None)) \<and>
   (blkType beaconBlk \<notin> {BxBlockTypeEth, BxBlockTypeUnknown} \<and> beaconBlock b \<and> chanAtCapacity (beaconBlocksFromBDN b) \<longrightarrow>
      SendBlockToNode b beaconBlk = (Some ErrChannelFull, b) \<and>
      (\<forall>x c. chanRecv (beaconBlocksFromBDN b) = Some (x, c) \<longrightarrow>
         fst (SendBlockToNode (b\<lparr>beaconBlocksFromBDN := c\<rparr>) beaconBlk) = None)) \<and>
   (chanAtCapacity (noActiveBlockchainPeers b) \<longrightarrow>
      SendNoActiveBlockchainPeersAlert b = (Some ErrChannelFull, b) \<and>
      (\<forall>x c. chanRecv (noActiveBlockchainPeers b) = Some (x, c) \<longrightarrow>
         fst (SendNoActiveBlockchainPeersAlert (b\<lparr>noActiveBlockchainPeers := c\<rparr>)) = None)) \<and>
   (chanAtCapacity (blockchainStatusRequest b) \<longrightarrow>
      SendBlockchainStatusRequest b = (Some ErrChannelFull, b) \<and>
      (\<forall>x c. chanRecv (blockchainStatusRequest b) = Some (x, c) \<longrightarrow>
         fst (SendBlockchainStatusRequest (b\<lparr>blockchainStatusRequest := c\<rparr>)) = None)) \<and>
   (chanAtCapacity (blockchainStatusResponse b) \<longrightarrow>
      SendBlockchainStatusResponse b endpoints = (Some ErrChannelFull, b) \<and>
      (\<forall>x c. chanRecv (blockchainStatusResponse b) = Some (x, c) \<longrightarrow>
         fst (SendBlockchainStatusResponse (b\<lparr>blockchainStatusResponse := c\<rparr>) endpoints) = None)) \<and>
   (chanAtCapacity (nodeConnectionCheckRequest b) \<longrightarrow>
      SendNodeConnectionCheckRequest b = (Some ErrChannelFull, b) \<and>
      (\<forall>x c. chanRecv (nodeConnectionCheckRequest b) = Some (x, c) \<longrightarrow>
         fst (SendNodeConnectionCheckRequest (b\<lparr>nodeConnectionCheckRequest := c\<rparr>)) = None)) \<and>
   (chanAtCapacity (nodeConnectionCheckResponse b) \<longrightarrow>
      SendNodeConnectionCheckResponse b endpoint = (Some ErrChannelFull, b) \<and>
      (\<forall>x c. chanRecv (nodeConnectionCheckResponse b) = Some (x, c) \<longrightarrow>
         fst (SendNodeConnectionCheckResponse (b\<lparr>nodeConnectionCheckResponse := c\<rparr>) endpoint) = None)) \<and>
   (chanAtCapacity (validatorInfo b) \<longrightarrow>
      SendValidatorListInfo b info = (Some ErrChannelFull, b) \<and>
      (\<forall>x c. chanRecv (validatorInfo b) = Some (x, c) \<longrightarrow>
         fst (SendValidatorListInfo (b\<lparr>validatorInfo := c\<rparr>) info) = None)) \<and>
   (chanAtCapacity (blockchainConnectionStatus b) \<longrightarrow>
      SendBlockchainConnectionStatus b connStatus = (Some ErrChannelFull, b) \<and>
      (\<forall>x c. chanRecv (blockchainConnectionStatus b) = Some (x, c) \<longrightarrow>
         fst (SendBlockchainConnectionStatus (b\<lparr>blockchainConnectionStatus := c\<rparr>) connStatus) = None)) \<and>
   (chanAtCapacity (disconnectEvent b) \<longrightarrow>
      SendDisconnectEvent b endpoint = (Some ErrChannelFull, b) \<and>
      (\<forall>x c. chanRecv (disconnectEvent b) = Some (x, c) \<longrightarrow>
         fst (SendDisconnectEvent (b\<lparr>disconnectEvent := c\<rparr>) endpoint) = None)) \<and>
   (chanHasRoom (config b) \<longrightarrow>
      UpdateNetworkConfig b cfg = Some (None, b\<lparr>config := (config b)\<lparr>chanBuf := chanBuf (config b) @ [cfg]\<rparr>\<rparr>)) \<and>
   (chanAtCapacity (config b) \<longrightarrow>
      UpdateNetworkConfig b cfg = None \<and>
      (\<forall>x c. chanRecv (config b) = Some (x, c) \<longrightarrow>
         (\<exists>b'. UpdateNetworkConfig (b\<lparr>config := c\<rparr>) cfg = Some (None, b'))))"
proof -
  note transactions_and_blocks =
    enqueue_AnnounceTransactionHashes_transactionHashesFromNode
    enqueue_RequestTransactionsFromNode_transactionHashesRequests
    enqueue_SendTransactionsFromBDN_transactionsFromBDN
    enqueue_SendTransactionsToBDN_transactionsFromNode
    enqueue_SendConfirmedBlockToGateway_confirmedBlockFromNode
    enqueue_SendBlockToBDN_blocksFromNode
  note blocks_to_node =
    enqueue_SendBlockToNode_ethBlocksFromBDN
    enqueue_SendBlockToNode_beaconBlocksFromBDN
  note status_and_events =
    enqueue_SendNoActiveBlockchainPeersAlert_noActiveBlockchainPeers
    enqueue_SendBlockchainStatusRequest_blockchainStatusRequest
    enqueue_SendBlockchainStatusResponse_blockchainStatusResponse
    enqueue_SendNodeConnectionCheckRequest_nodeConnectionCheckRequest
    enqueue_SendNodeConnectionCheckResponse_nodeConnectionCheckResponse
    enqueue_SendValidatorListInfo_validatorInfo
    enqueue_SendBlockchainConnectionStatus_blockchainConnectionStatus
    enqueue_SendDisconnectEvent_disconnectEvent
  show ?thesis
    by (intro conjI) (rule transactions_and_blocks blocks_to_node status_and_events
        enqueue_UpdateNetworkConfig [THEN conjunct1] enqueue_UpdateNetworkConfig [THEN conjunct2])+
qed

theorem C6_bridge_enqueue_witness:
  "AnnounceTransactionHashes saturatedBridge ''p'' [] ''n'' = (Some ErrChannelFull, saturatedBridge) \<and>
   fst (AnnounceTransactionHashes
          (saturatedBridge\<lparr>transactionHashesFromNode := \<lparr>chanBuf = [], chanCap = 1\<rparr>\<rparr>) ''p'' [] ''n'') = None \<and>
   RequestTransactionsFromNode saturatedBridge ''p'' [] = (Some ErrChannelFull, saturatedBridge) \<and>
   SendTransactionsFromBDN saturatedBridge
      \<lparr>tsTransactions = [], tsPeerEndpoint = ''n'', tsConnectionType = NodeTypeUnset\<rparr>
     = (Some ErrChannelFull, saturatedBridge) \<and>
   SendTransactionsToBDN saturatedBridge [] ''n'' = (Some ErrChannelFull, saturatedBridge) \<and>
   SendConfirmedBlockToGateway saturatedBridge (sampleBlock BxBlockTypeEth) ''n''
     = (Some ErrChannelFull, saturatedBridge) \<and>
   SendBlockToBDN saturatedBridge (sampleBlock BxBlockTypeEth) ''n'' = (Some ErrChannelFull, saturatedBridge) \<and>
   SendBlockToNode saturatedBridge (sampleBlock BxBlockTypeEth) = (Some ErrChannelFull, saturatedBridge) \<and>
   fst (SendBlockToNode (saturatedBridge\<lparr>ethBlocksFromBDN := \<lparr>chanBuf = [], chanCap = 1\<rparr>\<rparr>)
          (sampleBlock BxBlockTypeEth)) = None \<and>
   SendBlockToNode saturatedBridge (sampleBlock BxBlockTypeBeaconCapella)
     = (Some ErrChannelFull, saturatedBridge) \<and>
   SendNoActiveBlockchainPeersAlert saturatedBridge = (Some ErrChannelFull, saturatedBridge) \<and>
   SendBlockchainStatusRequest saturatedBridge = (Some ErrChannelFull, saturatedBridge) \<and>
   SendBlockchainStatusResponse saturatedBridge [] = (Some ErrChannelFull, saturatedBridge) \<and>
   SendNodeConnectionCheckRequest saturatedBridge = (Some ErrChannelFull, saturatedBridge) \<and>
   SendNodeConnectionCheckResponse saturatedBridge ''n'' = (Some ErrChannelFull, saturatedBridge) \<and>
   SendValidatorListInfo saturatedBridge \<lparr>vliValidatorList = [], vliBlockHeight = 0\<rparr>
     = (Some ErrChannelFull, saturatedBridge) \<and>
   SendBlockchainConnectionStatus saturatedBridge
      \<lparr>csPeerEndpoint = ''n'', csIsConnected = True, csIsDynamic = False\<rparr>
     = (Some ErrChannelFull, saturatedBridge) \<and>
   SendDisconnectEvent saturatedBridge ''n'' = (Some ErrChannelFull, saturatedBridge) \<and>
   UpdateNetworkConfig saturatedBridge ''cfg2'' = None \<and>
   (\<exists>b'. UpdateNetworkConfig (saturatedBridge\<lparr>config := \<lparr>chanBuf = [], chanCap = 1\<rparr>\<rparr>) ''cfg2''
            = Some (None, b'))"
proof -
  have cap:
    "chanAtCapacity (config saturatedBridge)"
    "chanAtCapacity (transactionsFromNode saturatedBridge)"
    "chanAtCapacity (transactionsFromBDN saturatedBridge)"
    "chanAtCapacity (transactionHashesFromNode saturatedBridge)"
    "chanAtCapacity (transactionHashesRequests saturatedBridge)"
    "chanAtCapacity (blocksFromNode saturatedBridge)"
    "chanAtCapacity (ethBlocksFromBDN saturatedBridge)"
    "chanAtCapacity (beaconBlocksFromBDN saturatedBridge)"
    "chanAtCapacity (confirmedBlockFromNode saturatedBridge)"
    "chanAtCapacity (noActiveBlockchainPeers saturatedBridge)"
    "chanAtCapacity (blockchainStatusRequest saturatedBridge)"
    "chanAtCapacity (blockchainStatusResponse saturatedBridge)"
    "chanAtCapacity (nodeConnectionCheckRequest saturatedBridge)"
    "chanAtCapacity (nodeConnectionCheckResponse saturatedBridge)"
    "chanAtCapacity (blockchainConnectionStatus saturatedBridge)"
    "chanAtCapacity (disconnectEvent saturatedBridge)"
    "chanAtCapacity (validatorInfo saturatedBridge)"
    by (simp_all add: saturatedBridge_def chanAtCapacity_def makeChan_def)
  have ty:
    "blkType (sampleBlock BxBlockTypeEth) = BxBlockTypeEth"
    "blkType (sampleBlock BxBlockTypeBeaconCapella) \<notin> {BxBlockTypeEth, BxBlockTypeUnknown}"
    "beaconBlock saturatedBridge"
    by (simp_all add: sampleBlock_def NewRawBxBlock_def saturatedBridge_def)
  have rcv:
    "chanRecv (transactionHashesFromNode saturatedBridge) =
       Some (\<lparr>taHashes = [], taPeerID = ''p'', taPeerEndpoint = ''n''\<rparr>, \<lparr>chanBuf = [], chanCap = 1\<rparr>)"
    "chanRecv (ethBlocksFromBDN saturatedBridge) =
       Some (sampleBlock BxBlockTypeEth, \<lparr>chanBuf = [], chanCap = 1\<rparr>)"
    "chanRecv (config saturatedBridge) = Some (''cfg'', \<lparr>chanBuf = [], chanCap = 1\<rparr>)"
    by (simp_all add: saturatedBridge_def chanRecv_def)
  show ?thesis
    using C6_bridge_enqueue [where b = saturatedBridge and ethBlock = "sampleBlock BxBlockTypeEth"
        and beaconBlk = "sampleBlock BxBlockTypeBeaconCapella" and block = "sampleBlock BxBlockTypeEth"
        and peerID = "''p''" and hashes = "[]" and endpoint = "''n''" and endpoints = "[]"
        and txs = "[]" and cfg = "''cfg2''"
        and transactions = "\<lparr>tsTransactions = [], tsPeerEndpoint = ''n'', tsConnectionType = NodeTypeUnset\<rparr>"
        and info = "\<lparr>vliValidatorList = [], vliBlockHeight = 0\<rparr>"
        and connStatus = "\<lparr>csPeerEndpoint = ''n'', csIsConnected = True, csIsDynamic = False\<rparr>"]
      cap ty rcv
    by simp
qed

text \<open>
  C7. On a bridge with \<^verbatim>\<open>beaconBlock = false\<close>, \<^verbatim>\<open>SendBlockToNode\<close> of a block of any
  beacon type returns \<^verbatim>\<open>nil\<close> and leaves every queue as it was. An Eth block is routed to the
  eth queue and to no other: it is appended there when the queue has room (the call returns
  \<^verbatim>\<open>nil\<close>), and otherwise the call returns \<^verbatim>\<open>ErrChannelFull\<close> with the bridge unchanged.
  A block of the Unknown type gets the type error and the bridge is unchanged.
\<close>

theorem C7_SendBlockToNode:
  "(blkType block \<in> {BxBlockTypeBeaconPhase0, BxBlockTypeBeaconAltair, BxBlockTypeBeaconBellatrix,
                      BxBlockTypeBeaconCapella} \<and> \<not> beaconBlock b \<longrightarrow>
      SendBlockToNode b block = (None, b)) \<and>
   (blkType block = BxBlockTypeEth \<and> chanHasRoom (ethBlocksFromBDN b) \<longrightarrow>
      SendBlockToNode b block =
        (None, b\<lparr>ethBlocksFromBDN := (ethBlocksFromBDN b)\<lparr>chanBuf := chanBuf (ethBlocksFromBDN b) @ [block]\<rparr>\<rparr>)) \<and>
   (blkType block = BxBlockTypeEth \<and> \<not> chanHasRoom (ethBlocksFromBDN b) \<longrightarrow>
      SendBlockToNode b block = (Some ErrChannelFull, b)) \<and>
   (blkType block = BxBlockTypeUnknown \<longrightarrow>
      SendBlockToNode b block = (Some (ErrCouldNotSendBlock (blkHash block) BxBlockTypeUnknown), b))"
proof (cases "blkType block")
  case BxBlockTypeUnknown
  then show ?thesis by (simp add: SendBlockToNode_def)
next
  case BxBlockTypeEth
  then show ?thesis by (simp add: SendBlockToNode_def chanTrySend_def)
next
  case BxBlockTypeBeaconPhase0
  then show ?thesis by (simp add: SendBlockToNode_def)
next
  case BxBlockTypeBeaconAltair
  then show ?thesis by (simp add: SendBlockToNode_def)
next
  case BxBlockTypeBeaconBellatrix
  then show ?thesis by (simp add: SendBlockToNode_def)
next
  case BxBlockTypeBeaconCapella
  then show ?thesis by (simp add: SendBlockToNode_def)
qed

theorem C7_SendBlockToNode_witness:
  "SendBlockToNode (NewBxBridge False) (sampleBlock BxBlockTypeBeaconBellatrix) = (None, NewBxBridge False) \<and>
   SendBlockToNode (NewBxBridge False) (sampleBlock BxBlockTypeEth) =
     (None, (NewBxBridge False)\<lparr>ethBlocksFromBDN := \<lparr>chanBuf = [sampleBlock BxBlockTypeEth], chanCap = 100\<rparr>\<rparr>) \<and>
   SendBlockToNode saturatedBridge (sampleBlock BxBlockTypeEth) = (Some ErrChannelFull, saturatedBridge) \<and>
   SendBlockToNode (NewBxBridge False) (sampleBlock BxBlockTypeUnknown) =
     (Some (ErrCouldNotSendBlock [1] BxBlockTypeUnknown), NewBxBridge False)"
proof -
  have h:
    "blkType (sampleBlock BxBlockTypeBeaconBellatrix) \<in>
       {BxBlockTypeBeaconPhase0, BxBlockTypeBeaconAltair, BxBlockTypeBeaconBellatrix, BxBlockTypeBeaconCapella}"
    "\<not> beaconBlock (NewBxBridge False)"
    "blkType (sampleBlock BxBlockTypeEth) = BxBlockTypeEth"
    "chanHasRoom (ethBlocksFromBDN (NewBxBridge False))"
    "\<not> chanHasRoom (ethBlocksFromBDN saturatedBridge)"
    "blkType (sampleBlock BxBlockTypeUnknown) = BxBlockTypeUnknown"
    "blkHash (sampleBlock BxBlockTypeUnknown) = [1]"
    "ethBlocksFromBDN (NewBxBridge False) = \<lparr>chanBuf = [], chanCap = 100\<rparr>"
    by (simp_all add: sampleBlock_def NewRawBxBlock_def NewBxBridge_def makeChan_def chanHasRoom_def
        blockBacklog_def saturatedBridge_def)
  have a: "SendBlockToNode (NewBxBridge False) (sampleBlock BxBlockTypeBeaconBellatrix) = (None, NewBxBridge False)"
    using C7_SendBlockToNode [of "sampleBlock BxBlockTypeBeaconBellatrix" "NewBxBridge False"] h(1,2)
    by blast
  have b: "SendBlockToNode (NewBxBridge False) (sampleBlock BxBlockTypeEth) =
     (None, (NewBxBridge False)\<lparr>ethBlocksFromBDN := \<lparr>chanBuf = [sampleBlock BxBlockTypeEth], chanCap = 100\<rparr>\<rparr>)"
    using C7_SendBlockToNode [of "sampleBlock BxBlockTypeEth" "NewBxBridge False"] h(3,4)
    by (simp add: h(8))
  have c: "SendBlockToNode saturatedBridge (sampleBlock BxBlockTypeEth) = (Some ErrChannelFull, saturatedBridge)"
    using C7_SendBlockToNode [of "sampleBlock BxBlockTypeEth" saturatedBridge] h(3,5)
    by blast
  have d: "SendBlockToNode (NewBxBridge False) (sampleBlock BxBlockTypeUnknown) =
     (Some (ErrCouldNotSendBlock [1] BxBlockTypeUnknown), NewBxBridge False)"
    using C7_SendBlockToNode [of "sampleBlock BxBlockTypeUnknown" "NewBxBridge False"] h(6)
    by (simp add: h(7))
  show ?thesis
    using a b c d by simp
qed

subsection \<open>Block processor: guards, missing short IDs, deduplication\<close>

lemma isBeaconType_simps:
  "\<not> isBeaconType BxBlockTypeUnknown" "\<not> isBeaconType BxBlockTypeEth"
  "isBeaconType BxBlockTypeBeaconPhase0" "isBeaconType BxBlockTypeBeaconAltair"
  "isBeaconType BxBlockTypeBeaconBellatrix" "isBeaconType BxBlockTypeBeaconCapella"
  by (simp_all add: isBeaconType_def)

lemma type_cases:
  "t = BxBlockTypeEth \<or> t = BxBlockTypeUnknown \<or> isBeaconType t"
  by (cases t) (simp_all add: isBeaconType_def)

lemma hashOf_not_Empty: "b \<noteq> 0 \<Longrightarrow> \<not> Empty (hashOf b)"
  by (simp add: Empty_def EmptyHash_def hashOf_def)

lemma hashOf_eq: "hashOf a = hashOf b \<longleftrightarrow> a = b"
  by (simp add: hashOf_def)

lemma lookupLoop_eq:
  "lookupLoop store sids found missing =
     (found @ List.map_filter (tsGetTxByShortID store) sids,
      missing @ filter (\<lambda>sid. tsGetTxByShortID store sid = None) sids)"
  by (induction sids arbitrary: found missing) (auto simp: List.map_filter_simps split: option.splits)

lemma hhExists_hhAdd:
  "hhExists (hhAdd hh key ttl t0) key now \<longleftrightarrow> hhExists hh key now \<or> now < t0 + ttl"
  by (simp add: hhExists_def hhAdd_def)

lemma ShouldProcess_markProcessed:
  "ShouldProcess (markProcessed bp t0 h) now h \<longleftrightarrow> ShouldProcess bp now h \<and> t0 + 10 * minute \<le> now"
  by (auto simp: ShouldProcess_def markProcessed_def hhExists_hhAdd)

text \<open>
  C4. For every broadcast of a beacon block type whose \<^verbatim>\<open>BeaconHash\<close> is empty,
  \<^verbatim>\<open>BxBlockFromBroadcast\<close> returns \<^verbatim>\<open>ErrNotCompitableBeaconBlock\<close> with no block and no list,
  and the processor (its processed-blocks history included) is unchanged.
\<close>

theorem C4_empty_beacon_hash:
  assumes "isBeaconType (bcBlockType broadcast)" and "Empty (bcBeaconHash broadcast)"
  shows "BxBlockFromBroadcast bp cd now broadcast = ((None, [], Some ErrNotCompitableBeaconBlock), bp)"
proof -
  have "bcBlockType broadcast \<noteq> BxBlockTypeEth"
    using assms(1) isBeaconType_simps(2) by auto
  then show ?thesis
    using assms by (simp add: BxBlockFromBroadcast_def)
qed

theorem C4_empty_beacon_hash_witness:
  "BxBlockFromBroadcast (NewBlockProcessor sampleStore) codec1 5
     (NewBlockBroadcast (hashOf 1) EmptyHash BxBlockTypeBeaconBellatrix [0x01] [7] 9) =
   ((None, [], Some ErrNotCompitableBeaconBlock), NewBlockProcessor sampleStore) \<and>
   processedBlocks (NewBlockProcessor sampleStore) = []"
proof -
  have "isBeaconType (bcBlockType (NewBlockBroadcast (hashOf 1) EmptyHash BxBlockTypeBeaconBellatrix [0x01] [7] 9))"
    and "Empty (bcBeaconHash (NewBlockBroadcast (hashOf 1) EmptyHash BxBlockTypeBeaconBellatrix [0x01] [7] 9))"
    by (simp_all add: NewBlockBroadcast_def isBeaconType_def Empty_def)
  then show ?thesis
    using C4_empty_beacon_hash [of "NewBlockBroadcast (hashOf 1) EmptyHash BxBlockTypeBeaconBellatrix [0x01] [7] 9"
        "NewBlockProcessor sampleStore" codec1 5]
    by (simp add: NewBlockProcessor_def NewHashHistory_def)
qed

text \<open>
  C2 (counterexample). An Eth broadcast whose hash is already in the processed history and
  whose only short ID (7) is unknown to the store gets \<^verbatim>\<open>ErrAlreadyProcessed\<close> with an empty
  list, not \<^verbatim>\<open>ErrMissingShortIDs\<close> with \<open>[7]\<close>; a broadcast of the Unknown type with the
  same short ID gets \<^verbatim>\<open>ErrUnknownBlockType\<close>.
\<close>

theorem C2_counterexample:
  "BxBlockFromBroadcast (markProcessed (NewBlockProcessor emptyStore) 0 (hashOf 1)) codec1 1
     (NewBlockBroadcast (hashOf 1) EmptyHash BxBlockTypeEth [0xC1] [7] 9) =
   ((None, [], Some ErrAlreadyProcessed), markProcessed (NewBlockProcessor emptyStore) 0 (hashOf 1)) \<and>
   tsGetTxByShortID (txStore (markProcessed (NewBlockProcessor emptyStore) 0 (hashOf 1))) 7 = None \<and>
   BxBlockFromBroadcast (NewBlockProcessor emptyStore) codec1 1
     (NewBlockBroadcast (hashOf 1) EmptyHash BxBlockTypeUnknown [0xC1] [7] 9) =
   ((None, [], Some ErrUnknownBlockType), NewBlockProcessor emptyStore)"
  by (simp add: BxBlockFromBroadcast_def NewBlockBroadcast_def ShouldProcess_def markProcessed_def
      NewBlockProcessor_def NewHashHistory_def hhExists_def hhAdd_def minute_def emptyStore_def
      isBeaconType_def)

text \<open>
  C2 (amended). For every broadcast that passes the guards of \<^verbatim>\<open>BxBlockFromBroadcast\<close> (an
  Eth broadcast whose hash is not in the processed history, or a beacon broadcast with a
  non-empty beacon hash that is not in the processed history) and in which at least one short
  ID is absent from the store, the call returns \<^verbatim>\<open>ErrMissingShortIDs\<close>, no block, and exactly
  the unresolvable short IDs in the order of the broadcast's short-ID list; the processor is
  unchanged.
\<close>

theorem C2_missing_short_ids:
  assumes guards:
    "(bcBlockType broadcast = BxBlockTypeEth \<and> ShouldProcess bp now (bcHash broadcast)) \<or>
     (isBeaconType (bcBlockType broadcast) \<and> \<not> Empty (bcBeaconHash broadcast) \<and>
      ShouldProcess bp now (bcBeaconHash broadcast))"
    and missing: "\<exists>sid \<in> set (bcShortIDs broadcast). tsGetTxByShortID (txStore bp) sid = None"
  shows "BxBlockFromBroadcast bp cd now broadcast =
           ((None, filter (\<lambda>sid. tsGetTxByShortID (txStore bp) sid = None) (bcShortIDs broadcast),
             Some ErrMissingShortIDs), bp)"
proof -
  have ne: "filter (\<lambda>sid. tsGetTxByShortID (txStore bp) sid = None) (bcShortIDs broadcast) \<noteq> []"
    using missing by (auto simp: filter_empty_conv)
  have nu: "bcBlockType broadcast \<noteq> BxBlockTypeUnknown"
    using guards isBeaconType_simps(1) by auto
  have nb: "bcBlockType broadcast = BxBlockTypeEth \<Longrightarrow> \<not> isBeaconType (bcBlockType broadcast)"
    by (simp add: isBeaconType_def)
  show ?thesis
    using guards ne nu nb
    by (auto simp: BxBlockFromBroadcast_def lookupLoop_eq)
qed

theorem C2_missing_short_ids_witness:
  "BxBlockFromBroadcast (NewBlockProcessor sampleStore) codec1 1
     (NewBlockBroadcast (hashOf 1) EmptyHash BxBlockTypeEth [0xC1] [8, 7, 9] 9) =
   ((None, [8, 9], Some ErrMissingShortIDs), NewBlockProcessor sampleStore)"
proof -
  let ?bc = "NewBlockBroadcast (hashOf 1) EmptyHash BxBlockTypeEth [0xC1] [8, 7, 9] 9"
  let ?bp = "NewBlockProcessor sampleStore"
  have g: "(bcBlockType ?bc = BxBlockTypeEth \<and> ShouldProcess ?bp 1 (bcHash ?bc)) \<or>
     (isBeaconType (bcBlockType ?bc) \<and> \<not> Empty (bcBeaconHash ?bc) \<and>
      ShouldProcess ?bp 1 (bcBeaconHash ?bc))"
    by (simp add: NewBlockBroadcast_def ShouldProcess_def NewBlockProcessor_def NewHashHistory_def
        hhExists_def)
  have m: "\<exists>sid \<in> set (bcShortIDs ?bc). tsGetTxByShortID (txStore ?bp) sid = None"
    by (simp add: NewBlockBroadcast_def NewBlockProcessor_def sampleStore_def)
  have f: "filter (\<lambda>sid. tsGetTxByShortID (txStore ?bp) sid = None) (bcShortIDs ?bc) = [8, 9]"
    by (simp add: NewBlockBroadcast_def NewBlockProcessor_def sampleStore_def)
  show ?thesis
    using C2_missing_short_ids [OF g m, of codec1] f by simp
qed

text \<open>
  C3 (counterexample). The entry written by \<^verbatim>\<open>markProcessed\<close> lives for ten minutes. A first
  call at time 1 succeeds; a second call on the same block ten minutes later succeeds again
  instead of failing with \<^verbatim>\<open>ErrAlreadyProcessed\<close>.
\<close>

theorem C3_counterexample:
  "snd (snd (fst (BxBlockToBroadcast (NewBlockProcessor sampleStore) codec1 1 ethBlock1 9 0))) = None \<and>
   snd (snd (fst (BxBlockToBroadcast
                    (snd (BxBlockToBroadcast (NewBlockProcessor sampleStore) codec1 1 ethBlock1 9 0))
                    codec1 (1 + 10 * minute) ethBlock1 9 0))) = None"
  by (simp add: BxBlockToBroadcast_def newRLPBlockBroadcast_def ShouldProcess_def markProcessed_def
      NewBlockProcessor_def NewHashHistory_def hhExists_def hhAdd_def minute_def sampleStore_def
      ethBlock1_def NewRawBxBlock_def NewBxBlockTransaction_def compressibleShortID_def knownTx_def
      codec1_def singleCodec_def ethEnvelope1_def hashOf_eq NewBlockBroadcast_def
      isBeaconType_def Let_def)

text \<open>
  C3 (amended). After one successful call of \<^verbatim>\<open>BxBlockToBroadcast\<close> on a block at time
  \<open>now\<close>, every further call on the same block (whatever the other arguments) made less than
  ten minutes after the first one fails with \<^verbatim>\<open>ErrAlreadyProcessed\<close> and leaves the processor
  as it was. Eth blocks are keyed by \<^verbatim>\<open>block.Hash\<close>, beacon blocks by \<^verbatim>\<open>block.BeaconHash\<close>.
\<close>

theorem C3_second_call_already_processed:
  assumes first: "BxBlockToBroadcast bp cd now block networkNum minTxAge = ((bm, used, None), bp')"
    and window: "now' < now + 10 * minute"
  shows "BxBlockToBroadcast bp' cd' now' block networkNum' minTxAge' = ((None, [], Some ErrAlreadyProcessed), bp')
         \<and> (blkType block = BxBlockTypeEth \<longrightarrow> \<not> ShouldProcess bp' now' (blkHash block))
         \<and> (isBeaconType (blkType block) \<longrightarrow> \<not> ShouldProcess bp' now' (blkBeaconHash block))"
proof -
  consider (eth) "blkType block = BxBlockTypeEth" | (unknown) "blkType block = BxBlockTypeUnknown"
    | (beacon) "isBeaconType (blkType block)"
    using type_cases by blast
  then show ?thesis
  proof cases
    case eth
    then have nb: "\<not> isBeaconType (blkType block)"
      by (simp add: isBeaconType_def)
    have "bp' = markProcessed bp now (blkHash block)"
      using first eth nb
      by (auto simp: BxBlockToBroadcast_def Let_def split: if_splits prod.splits)
    then have "\<not> ShouldProcess bp' now' (blkHash block)"
      using window by (simp add: ShouldProcess_markProcessed)
    then show ?thesis
      using eth nb by (simp add: BxBlockToBroadcast_def)
  next
    case unknown
    then have False
      using first by (auto simp: BxBlockToBroadcast_def isBeaconType_def)
    then show ?thesis ..
  next
    case beacon
    then have ne: "blkType block \<noteq> BxBlockTypeEth" "blkType block \<noteq> BxBlockTypeUnknown"
      by (auto simp: isBeaconType_def)
    have "bp' = markProcessed bp now (blkBeaconHash block)"
      using first beacon ne
      by (auto simp: BxBlockToBroadcast_def Let_def split: if_splits prod.splits)
    then have "\<not> ShouldProcess bp' now' (blkBeaconHash block)"
      using window by (simp add: ShouldProcess_markProcessed)
    then show ?thesis
      using beacon ne by (simp add: BxBlockToBroadcast_def)
  qed
qed

lemma ethBlock1_to_broadcast:
  "BxBlockToBroadcast (NewBlockProcessor sampleStore) codec1 1 ethBlock1 9 0 =
     ((Some (NewBlockBroadcast (hashOf 1) EmptyHash BxBlockTypeEth [0xC1] [7] 9), [7], None),
      markProcessed (NewBlockProcessor sampleStore) 1 (hashOf 1))"
  by (simp add: BxBlockToBroadcast_def newRLPBlockBroadcast_def ShouldProcess_def
      NewBlockProcessor_def NewHashHistory_def hhExists_def sampleStore_def
      ethBlock1_def NewRawBxBlock_def NewBxBlockTransaction_def compressibleShortID_def knownTx_def
      codec1_def singleCodec_def ethEnvelope1_def hashOf_eq isBeaconType_def Let_def)

lemma beaconBlock1_to_broadcast:
  "BxBlockToBroadcast (NewBlockProcessor sampleStore) codec1 1 beaconBlock1 9 0 =
     ((Some (NewBlockBroadcast (hashOf 1) (hashOf 2) BxBlockTypeBeaconCapella [0x01] [7] 9), [7], None),
      markProcessed (NewBlockProcessor sampleStore) 1 (hashOf 2))"
  by (simp add: BxBlockToBroadcast_def newSSZBlockBroadcast_def ShouldProcess_def
      NewBlockProcessor_def NewHashHistory_def hhExists_def sampleStore_def
      beaconBlock1_def NewRawBxBlock_def NewBxBlockTransaction_def compressibleShortID_def knownTx_def
      codec1_def singleCodec_def beaconEnvelope1_def hashOf_eq isBeaconType_def Let_def
      bigInt_Uint64_def)

theorem C3_second_call_already_processed_witness:
  "BxBlockToBroadcast (markProcessed (NewBlockProcessor sampleStore) 1 (hashOf 1)) codec1 (10 * minute)
     ethBlock1 9 0 =
   ((None, [], Some ErrAlreadyProcessed), markProcessed (NewBlockProcessor sampleStore) 1 (hashOf 1)) \<and>
   BxBlockToBroadcast (markProcessed (NewBlockProcessor sampleStore) 1 (hashOf 2)) codec1 (10 * minute)
     beaconBlock1 9 0 =
   ((None, [], Some ErrAlreadyProcessed), markProcessed (NewBlockProcessor sampleStore) 1 (hashOf 2))"
proof -
  have w: "10 * minute < 1 + 10 * minute"
    by simp
  show ?thesis
    using C3_second_call_already_processed [OF ethBlock1_to_broadcast w, of codec1 9 0]
      C3_second_call_already_processed [OF beaconBlock1_to_broadcast w, of codec1 9 0]
    by simp
qed

subsection \<open>Block processor: compression and expansion\<close>

lemma compressLoop_eq:
  "compressLoop store maxTs txs used acc =
     (used @ List.map_filter (compressibleShortID store maxTs) txs,
      acc @ map (compressedEntry store maxTs) txs)"
  by (induction txs arbitrary: used acc)
     (auto simp: List.map_filter_simps compressedEntry_def split: option.splits)

lemma map_filter_map_filter:
  "List.map_filter g (List.map_filter f xs) = List.map_filter (\<lambda>x. Option.bind (f x) g) xs"
  by (induction xs) (auto simp: List.map_filter_simps split: option.splits)

lemma resolvable_Cons:
  "resolvable store maxTs store2 (tx # txs) \<longleftrightarrow>
     (\<forall>sid. compressibleShortID store maxTs tx = Some sid \<longrightarrow>
        (\<exists>t. tsGetTxByShortID store2 sid = Some t \<and> txContent t = bbtContent tx)) \<and>
     resolvable store maxTs store2 txs"
  by (auto simp: resolvable_def)

lemma resolvable_no_missing:
  "resolvable store maxTs store2 txs \<Longrightarrow>
   filter (\<lambda>sid. tsGetTxByShortID store2 sid = None) (List.map_filter (compressibleShortID store maxTs) txs) = []"
  by (induction txs) (auto simp: List.map_filter_simps resolvable_Cons split: option.splits)

lemma decompressRLPLoop_resolved:
  "resolvable store maxTs store2 txs \<Longrightarrow>
   \<exists>out n. decompressRLPLoop
              (pre @ List.map_filter (\<lambda>tx. Option.bind (compressibleShortID store maxTs tx) (tsGetTxByShortID store2)) txs)
              (map (compressedEntry store maxTs) txs) (length pre) acc bytes = Inr (acc @ out, n) \<and>
            map bbtContent out = map bbtContent txs"
proof (induction txs arbitrary: pre acc bytes)
  case Nil
  then show ?case by (simp add: List.map_filter_simps)
next
  case (Cons tx txs)
  let ?r = "\<lambda>tx. Option.bind (compressibleShortID store maxTs tx) (tsGetTxByShortID store2)"
  have rest: "resolvable store maxTs store2 txs"
    using Cons.prems by (simp add: resolvable_Cons)
  show ?case
  proof (cases "compressibleShortID store maxTs tx")
    case None
    obtain out n where o:
      "decompressRLPLoop (pre @ List.map_filter ?r txs) (map (compressedEntry store maxTs) txs) (length pre)
         (acc @ [NewRawBxBlockTransaction (bbtContent tx)]) (bytes + length (bbtContent tx))
       = Inr ((acc @ [NewRawBxBlockTransaction (bbtContent tx)]) @ out, n)"
      "map bbtContent out = map bbtContent txs"
      using Cons.IH [OF rest] by blast
    have "decompressRLPLoop (pre @ List.map_filter ?r (tx # txs)) (map (compressedEntry store maxTs) (tx # txs))
            (length pre) acc bytes
          = Inr (acc @ (NewRawBxBlockTransaction (bbtContent tx) # out), n)"
      using None o(1) by (simp add: List.map_filter_simps compressedEntry_def)
    moreover have "map bbtContent (NewRawBxBlockTransaction (bbtContent tx) # out) = map bbtContent (tx # txs)"
      using o(2) by (simp add: NewRawBxBlockTransaction_def)
    ultimately show ?thesis by blast
  next
    case (Some sid)
    then obtain t where t: "tsGetTxByShortID store2 sid = Some t" "txContent t = bbtContent tx"
      using Cons.prems by (auto simp: resolvable_Cons)
    have idx: "(pre @ t # List.map_filter ?r txs) ! length pre = t"
      by simp
    obtain out n where o:
      "decompressRLPLoop ((pre @ [t]) @ List.map_filter ?r txs) (map (compressedEntry store maxTs) txs)
         (length (pre @ [t])) (acc @ [NewBxBlockTransaction (txHash t) (txContent t)])
         (bytes + length (txContent t))
       = Inr ((acc @ [NewBxBlockTransaction (txHash t) (txContent t)]) @ out, n)"
      "map bbtContent out = map bbtContent txs"
      using Cons.IH [OF rest] by blast
    have "decompressRLPLoop (pre @ List.map_filter ?r (tx # txs)) (map (compressedEntry store maxTs) (tx # txs))
            (length pre) acc bytes
          = Inr (acc @ (NewBxBlockTransaction (txHash t) (txContent t) # out), n)"
      using Some t(1) o(1) idx by (simp add: List.map_filter_simps compressedEntry_def)
    moreover have "map bbtContent (NewBxBlockTransaction (txHash t) (txContent t) # out) = map bbtContent (tx # txs)"
      using o(2) t(2) by (simp add: NewBxBlockTransaction_def)
    ultimately show ?thesis by blast
  qed
qed

lemma decompressSSZLoop_resolved:
  "resolvable store maxTs store2 txs \<Longrightarrow>
   \<exists>out n. decompressSSZLoop
              (pre @ List.map_filter (\<lambda>tx. Option.bind (compressibleShortID store maxTs tx) (tsGetTxByShortID store2)) txs)
              (map (compressedEntry store maxTs) txs) (length pre) acc bytes = Inr (acc @ out, n) \<and>
            map bbtContent out = map bbtContent txs"
proof (induction txs arbitrary: pre acc bytes)
  case Nil
  then show ?case by (simp add: List.map_filter_simps)
next
  case (Cons tx txs)
  let ?r = "\<lambda>tx. Option.bind (compressibleShortID store maxTs tx) (tsGetTxByShortID store2)"
  have rest: "resolvable store maxTs store2 txs"
    using Cons.prems by (simp add: resolvable_Cons)
  show ?case
  proof (cases "compressibleShortID store maxTs tx")
    case None
    obtain out n where o:
      "decompressSSZLoop (pre @ List.map_filter ?r txs) (map (compressedEntry store maxTs) txs) (length pre)
         (acc @ [NewRawBxBlockTransaction (bbtContent tx)])
         (bytes + calcBeaconTransactionLength (bbtContent tx))
       = Inr ((acc @ [NewRawBxBlockTransaction (bbtContent tx)]) @ out, n)"
      "map bbtContent out = map bbtContent txs"
      using Cons.IH [OF rest] by blast
    have "decompressSSZLoop (pre @ List.map_filter ?r (tx # txs)) (map (compressedEntry store maxTs) (tx # txs))
            (length pre) acc bytes
          = Inr (acc @ (NewRawBxBlockTransaction (bbtContent tx) # out), n)"
      using None o(1) by (simp add: List.map_filter_simps compressedEntry_def)
    moreover have "map bbtContent (NewRawBxBlockTransaction (bbtContent tx) # out) = map bbtContent (tx # txs)"
      using o(2) by (simp add: NewRawBxBlockTransaction_def)
    ultimately show ?thesis by blast
  next
    case (Some sid)
    then obtain t where t: "tsGetTxByShortID store2 sid = Some t" "txContent t = bbtContent tx"
      using Cons.prems by (auto simp: resolvable_Cons)
    have idx: "(pre @ t # List.map_filter ?r txs) ! length pre = t"
      by simp
    obtain out n where o:
      "decompressSSZLoop ((pre @ [t]) @ List.map_filter ?r txs) (map (compressedEntry store maxTs) txs)
         (length (pre @ [t])) (acc @ [NewRawBxBlockTransaction (txContent t)])
         (bytes + calcBeaconTransactionLength (txContent t))
       = Inr ((acc @ [NewRawBxBlockTransaction (txContent t)]) @ out, n)"
      "map bbtContent out = map bbtContent txs"
      using Cons.IH [OF rest] by blast
    have "decompressSSZLoop (pre @ List.map_filter ?r (tx # txs)) (map (compressedEntry store maxTs) (tx # txs))
            (length pre) acc bytes
          = Inr (acc @ (NewRawBxBlockTransaction (txContent t) # out), n)"
      using Some t(1) o(1) idx by (simp add: List.map_filter_simps compressedEntry_def)
    moreover have "map bbtContent (NewRawBxBlockTransaction (txContent t) # out) = map bbtContent (tx # txs)"
      using o(2) t(2) by (simp add: NewRawBxBlockTransaction_def)
    ultimately show ?thesis by blast
  qed
qed

lemma to_broadcast_eth:
  assumes ty: "blkType block = BxBlockTypeEth"
    and succ: "BxBlockToBroadcast bp cd now block networkNum minTxAge = ((Some bc, used, None), bp1)"
  shows "\<exists>payload.
           rlpEncodeToBytes cd
             \<lparr>rlpHeader = blkHeader block,
              rlpTxs = map (compressedEntry (txStore bp) (now - minTxAge)) (blkTxs block),
              rlpTrailer = blkTrailer block, rlpTotalDifficulty = blkTotalDifficulty block,
              rlpNumber = blkNumber block\<rparr> = Inr payload \<and>
           bc = NewBlockBroadcast (blkHash block) EmptyHash BxBlockTypeEth payload
                  (List.map_filter (compressibleShortID (txStore bp) (now - minTxAge)) (blkTxs block))
                  networkNum \<and>
           bp1 = markProcessed bp now (blkHash block)"
  using succ ty
  by (auto simp: BxBlockToBroadcast_def newRLPBlockBroadcast_def compressLoop_eq Let_def
      isBeaconType_def split: if_splits sum.splits)

lemma to_broadcast_beacon:
  assumes ty: "isBeaconType (blkType block)"
    and succ: "BxBlockToBroadcast bp cd now block networkNum minTxAge = ((Some bc, used, None), bp1)"
  shows "\<exists>payload.
           MarshalSSZ cd
             \<lparr>sszBlock = blkTrailer block,
              sszTxs = map (compressedEntry (txStore bp) (now - minTxAge)) (blkTxs block),
              sszNumber = bigInt_Uint64 (blkNumber block)\<rparr> = Inr payload \<and>
           bc = NewBlockBroadcast (blkHash block) (blkBeaconHash block) (blkType block) payload
                  (List.map_filter (compressibleShortID (txStore bp) (now - minTxAge)) (blkTxs block))
                  networkNum \<and>
           bp1 = markProcessed bp now (blkBeaconHash block)"
proof -
  have ne: "blkType block \<noteq> BxBlockTypeEth" "blkType block \<noteq> BxBlockTypeUnknown"
    using ty by (auto simp: isBeaconType_def)
  show ?thesis
    using succ ne
    by (auto simp: BxBlockToBroadcast_def newSSZBlockBroadcast_def compressLoop_eq Let_def
        split: if_splits sum.splits)
qed

lemma from_broadcast_eth:
  assumes res: "resolvable store maxTs (txStore bp2) txs"
    and fresh: "ShouldProcess bp2 now2 h"
    and dec: "rlpDecodeBytes cd payload =
                Inr \<lparr>rlpHeader = header, rlpTxs = map (compressedEntry store maxTs) txs,
                     rlpTrailer = trailer, rlpTotalDifficulty = td, rlpNumber = number\<rparr>"
  shows "\<exists>blk. BxBlockFromBroadcast bp2 cd now2
                  (NewBlockBroadcast h EmptyHash BxBlockTypeEth payload
                     (List.map_filter (compressibleShortID store maxTs) txs) networkNum)
                = ((Some blk, [], None), markProcessed bp2 now2 h) \<and>
               map bbtContent (blkTxs blk) = map bbtContent txs \<and>
               blkHeader blk = header \<and> blkTrailer blk = trailer \<and>
               blkNumber blk = number \<and> blkTotalDifficulty blk = td \<and>
               blkHash blk = h \<and> blkType blk = BxBlockTypeEth"
proof -
  let ?r = "\<lambda>tx. Option.bind (compressibleShortID store maxTs tx) (tsGetTxByShortID (txStore bp2))"
  obtain out n where o:
    "decompressRLPLoop (List.map_filter ?r txs) (map (compressedEntry store maxTs) txs) 0 [] 0 = Inr (out, n)"
    "map bbtContent out = map bbtContent txs"
    using decompressRLPLoop_resolved [OF res, of "[]" "[]" 0] by auto
  show ?thesis
    using o fresh dec resolvable_no_missing [OF res]
    by (simp add: BxBlockFromBroadcast_def NewBlockBroadcast_def lookupLoop_eq map_filter_map_filter
        newBxBlockFromRLPBroadcast_def NewRawBxBlock_def isBeaconType_def Let_def)
qed

lemma from_broadcast_beacon:
  assumes res: "resolvable store maxTs (txStore bp2) txs"
    and ty: "isBeaconType t"
    and ne: "\<not> Empty bh"
    and fresh: "ShouldProcess bp2 now2 bh"
    and dec: "UnmarshalSSZ cd payload =
                Inr \<lparr>sszBlock = trailer, sszTxs = map (compressedEntry store maxTs) txs,
                     sszNumber = number\<rparr>"
  shows "\<exists>blk. BxBlockFromBroadcast bp2 cd now2
                  (NewBlockBroadcast h bh t payload
                     (List.map_filter (compressibleShortID store maxTs) txs) networkNum)
                = ((Some blk, [], None), markProcessed (markProcessed bp2 now2 h) now2 bh) \<and>
               map bbtContent (blkTxs blk) = map bbtContent txs \<and>
               blkHeader blk = [] \<and> blkTrailer blk = trailer \<and>
               blkNumber blk = sint number \<and> blkTotalDifficulty blk = None \<and>
               blkHash blk = h \<and> blkBeaconHash blk = bh \<and> blkType blk = t"
proof -
  let ?r = "\<lambda>tx. Option.bind (compressibleShortID store maxTs tx) (tsGetTxByShortID (txStore bp2))"
  have nt: "t \<noteq> BxBlockTypeEth" "t \<noteq> BxBlockTypeUnknown"
    using ty by (auto simp: isBeaconType_def)
  obtain out n where o:
    "decompressSSZLoop (List.map_filter ?r txs) (map (compressedEntry store maxTs) txs) 0 [] 0 = Inr (out, n)"
    "map bbtContent out = map bbtContent txs"
    using decompressSSZLoop_resolved [OF res, of "[]" "[]" 0] by auto
  show ?thesis
    using o fresh dec ne ty nt resolvable_no_missing [OF res]
    by (simp add: BxBlockFromBroadcast_def NewBlockBroadcast_def lookupLoop_eq map_filter_map_filter
        newBxBlockFromSSZBroadcast_def NewRawBxBlock_def Let_def)
qed

lemma sint_bigInt_Uint64:
  "0 \<le> n \<Longrightarrow> n < 2 ^ 63 \<Longrightarrow> sint (bigInt_Uint64 n) = n"
  by (simp add: bigInt_Uint64_def sint_sbintrunc' signed_take_bit_int_eq_self)

text \<open>
  C1 (counterexample). The Eth block \<open>ethBlock1\<close> is compressed on a processor with an empty
  processed history; the store resolves the one short ID used (7) to the content of the
  transaction it replaced. \<^verbatim>\<open>BxBlockFromBroadcast\<close> on that same processor returns
  \<^verbatim>\<open>ErrAlreadyProcessed\<close> and no block, because \<^verbatim>\<open>BxBlockToBroadcast\<close> has just marked the
  hash. For the beacon block \<open>beaconBlock1\<close> (header \<open>[0x09]\<close>) even a fresh second
  processor returns a block with an empty header.
\<close>

theorem C1_counterexample:
  "processedBlocks (NewBlockProcessor sampleStore) = [] \<and>
   BxBlockToBroadcast (NewBlockProcessor sampleStore) codec1 1 ethBlock1 9 0 =
     ((Some (NewBlockBroadcast (hashOf 1) EmptyHash BxBlockTypeEth [0xC1] [7] 9), [7], None),
      markProcessed (NewBlockProcessor sampleStore) 1 (hashOf 1)) \<and>
   map_option txContent (tsGetTxByShortID sampleStore 7) = Some (bbtContent (hd (blkTxs ethBlock1))) \<and>
   BxBlockFromBroadcast (markProcessed (NewBlockProcessor sampleStore) 1 (hashOf 1)) codec1 2
       (NewBlockBroadcast (hashOf 1) EmptyHash BxBlockTypeEth [0xC1] [7] 9) =
     ((None, [], Some ErrAlreadyProcessed), markProcessed (NewBlockProcessor sampleStore) 1 (hashOf 1)) \<and>
   BxBlockToBroadcast (NewBlockProcessor sampleStore) codec1 1 beaconBlock1 9 0 =
     ((Some (NewBlockBroadcast (hashOf 1) (hashOf 2) BxBlockTypeBeaconCapella [0x01] [7] 9), [7], None),
      markProcessed (NewBlockProcessor sampleStore) 1 (hashOf 2)) \<and>
   map_option blkHeader (fst (fst (BxBlockFromBroadcast (NewBlockProcessor sampleStore) codec1 2
       (NewBlockBroadcast (hashOf 1) (hashOf 2) BxBlockTypeBeaconCapella [0x01] [7] 9)))) = Some [] \<and>
   blkHeader beaconBlock1 = [0x09]"
proof -
  have a: "BxBlockFromBroadcast (markProcessed (NewBlockProcessor sampleStore) 1 (hashOf 1)) codec1 2
       (NewBlockBroadcast (hashOf 1) EmptyHash BxBlockTypeEth [0xC1] [7] 9) =
     ((None, [], Some ErrAlreadyProcessed), markProcessed (NewBlockProcessor sampleStore) 1 (hashOf 1))"
    by (simp add: BxBlockFromBroadcast_def NewBlockBroadcast_def ShouldProcess_markProcessed minute_def)
  have b: "map_option blkHeader (fst (fst (BxBlockFromBroadcast (NewBlockProcessor sampleStore) codec1 2
       (NewBlockBroadcast (hashOf 1) (hashOf 2) BxBlockTypeBeaconCapella [0x01] [7] 9)))) = Some []"
    by (simp add: BxBlockFromBroadcast_def NewBlockBroadcast_def ShouldProcess_def NewBlockProcessor_def
        NewHashHistory_def hhExists_def isBeaconType_def hashOf_not_Empty sampleStore_def Let_def
        newBxBlockFromSSZBroadcast_def codec1_def singleCodec_def beaconEnvelope1_def knownTx_def
        NewRawBxBlock_def split: sum.splits prod.splits)
  have c: "map_option txContent (tsGetTxByShortID sampleStore 7) = Some (bbtContent (hd (blkTxs ethBlock1)))"
    by (simp add: sampleStore_def knownTx_def ethBlock1_def NewRawBxBlock_def NewBxBlockTransaction_def)
  have d: "blkHeader beaconBlock1 = [0x09]" "processedBlocks (NewBlockProcessor sampleStore) = []"
    by (simp_all add: beaconBlock1_def NewRawBxBlock_def NewBlockProcessor_def NewHashHistory_def)
  show ?thesis
    using a b c d ethBlock1_to_broadcast beaconBlock1_to_broadcast by simp
qed

text \<open>
  C1 (amended). Let \<^verbatim>\<open>BxBlockToBroadcast\<close> succeed on a block with \<open>minTxAge = 0\<close>, let the
  codec decode the payload of the broadcast back to the envelope that was encoded (the one
  that \<^verbatim>\<open>newRLPBlockBroadcast\<close> or \<^verbatim>\<open>newSSZBlockBroadcast\<close> built from the block), and let
  the store of the receiving processor return the same content for every short ID used.
  Then \<^verbatim>\<open>BxBlockFromBroadcast\<close>, applied to the broadcast on a processor whose processed
  history does not hold the key of the block (the hash of an Eth block; the beacon hash of a
  beacon block, which must not be empty) --- hence not on the processor that produced the
  broadcast --- returns a block whose transaction contents and trailer equal the original's.
  For an Eth block the header, the number and the total difficulty equal the original's.
  For a beacon block the header is empty and the total difficulty \<^verbatim>\<open>nil\<close>, and the number
  equals the original's when \<open>0 \<le> Number < 2 ^ 63\<close>.
\<close>

theorem C1_round_trip:
  assumes succ: "BxBlockToBroadcast bp cd now block networkNum 0 = ((Some bc, used, None), bp1)"
    and store: "resolvable (txStore bp) now (txStore bp2) (blkTxs block)"
    and rlp: "blkType block = BxBlockTypeEth \<longrightarrow>
                rlpDecodeBytes cd (bcBlock bc) =
                  Inr \<lparr>rlpHeader = blkHeader block,
                       rlpTxs = snd (compressLoop (txStore bp) now (blkTxs block) [] []),
                       rlpTrailer = blkTrailer block, rlpTotalDifficulty = blkTotalDifficulty block,
                       rlpNumber = blkNumber block\<rparr>"
    and ssz: "isBeaconType (blkType block) \<longrightarrow>
                UnmarshalSSZ cd (bcBlock bc) =
                  Inr \<lparr>sszBlock = blkTrailer block,
                       sszTxs = snd (compressLoop (txStore bp) now (blkTxs block) [] []),
                       sszNumber = bigInt_Uint64 (blkNumber block)\<rparr>"
    and freshEth: "blkType block = BxBlockTypeEth \<longrightarrow> ShouldProcess bp2 now2 (blkHash block)"
    and freshBeacon: "isBeaconType (blkType block) \<longrightarrow>
                \<not> Empty (blkBeaconHash block) \<and> ShouldProcess bp2 now2 (blkBeaconHash block)"
  shows "\<exists>blk bp3.
           BxBlockFromBroadcast bp2 cd now2 bc = ((Some blk, [], None), bp3) \<and>
           map bbtContent (blkTxs blk) = map bbtContent (blkTxs block) \<and>
           blkTrailer blk = blkTrailer block \<and>
           (blkType block = BxBlockTypeEth \<longrightarrow>
              blkHeader blk = blkHeader block \<and> blkNumber blk = blkNumber block \<and>
              blkTotalDifficulty blk = blkTotalDifficulty block) \<and>
           (isBeaconType (blkType block) \<longrightarrow>
              blkHeader blk = [] \<and> blkTotalDifficulty blk = None \<and>
              blkNumber blk = sint (bigInt_Uint64 (blkNumber block)) \<and>
              (0 \<le> blkNumber block \<and> blkNumber block < 2 ^ 63 \<longrightarrow> blkNumber blk = blkNumber block))"
proof -
  consider (eth) "blkType block = BxBlockTypeEth" | (unknown) "blkType block = BxBlockTypeUnknown"
    | (beacon) "isBeaconType (blkType block)"
    using type_cases by blast
  then show ?thesis
  proof cases
    case eth
    let ?env = "\<lparr>rlpHeader = blkHeader block,
                  rlpTxs = map (compressedEntry (txStore bp) (now - 0)) (blkTxs block),
                  rlpTrailer = blkTrailer block, rlpTotalDifficulty = blkTotalDifficulty block,
                  rlpNumber = blkNumber block\<rparr>"
    obtain payload where p:
      "rlpEncodeToBytes cd ?env = Inr payload"
      "bc = NewBlockBroadcast (blkHash block) EmptyHash BxBlockTypeEth payload
              (List.map_filter (compressibleShortID (txStore bp) (now - 0)) (blkTxs block)) networkNum"
      using to_broadcast_eth [OF eth succ] by blast
    have pl: "bcBlock bc = payload"
      using p(2) by (simp add: NewBlockBroadcast_def)
    have dec: "rlpDecodeBytes cd payload = Inr ?env"
      using rlp eth pl by (simp add: compressLoop_eq)
    have res: "resolvable (txStore bp) (now - 0) (txStore bp2) (blkTxs block)"
      using store by simp
    have fr: "ShouldProcess bp2 now2 (blkHash block)"
      using freshEth eth by simp
    obtain blk where
      "BxBlockFromBroadcast bp2 cd now2 bc = ((Some blk, [], None), markProcessed bp2 now2 (blkHash block))"
      "map bbtContent (blkTxs blk) = map bbtContent (blkTxs block)"
      "blkHeader blk = blkHeader block" "blkTrailer blk = blkTrailer block"
      "blkNumber blk = blkNumber block" "blkTotalDifficulty blk = blkTotalDifficulty block"
      using from_broadcast_eth [OF res fr dec, of networkNum] p(2) by auto
    then show ?thesis
      using eth by (auto simp: isBeaconType_def)
  next
    case unknown
    then have False
      using succ by (auto simp: BxBlockToBroadcast_def isBeaconType_def)
    then show ?thesis ..
  next
    case beacon
    let ?env = "\<lparr>sszBlock = blkTrailer block,
                  sszTxs = map (compressedEntry (txStore bp) (now - 0)) (blkTxs block),
                  sszNumber = bigInt_Uint64 (blkNumber block)\<rparr>"
    obtain payload where p:
      "MarshalSSZ cd ?env = Inr payload"
      "bc = NewBlockBroadcast (blkHash block) (blkBeaconHash block) (blkType block) payload
              (List.map_filter (compressibleShortID (txStore bp) (now - 0)) (blkTxs block)) networkNum"
      using to_broadcast_beacon [OF beacon succ] by blast
    have pl: "bcBlock bc = payload"
      using p(2) by (simp add: NewBlockBroadcast_def)
    have dec: "UnmarshalSSZ cd payload = Inr ?env"
      using ssz beacon pl by (simp add: compressLoop_eq)
    have res: "resolvable (txStore bp) (now - 0) (txStore bp2) (blkTxs block)"
      using store by simp
    have fr: "\<not> Empty (blkBeaconHash block)" "ShouldProcess bp2 now2 (blkBeaconHash block)"
      using freshBeacon beacon by simp_all
    obtain blk where b:
      "BxBlockFromBroadcast bp2 cd now2 bc =
         ((Some blk, [], None),
          markProcessed (markProcessed bp2 now2 (blkHash block)) now2 (blkBeaconHash block))"
      "map bbtContent (blkTxs blk) = map bbtContent (blkTxs block)"
      "blkHeader blk = []" "blkTrailer blk = blkTrailer block"
      "blkNumber blk = sint (bigInt_Uint64 (blkNumber block))" "blkTotalDifficulty blk = None"
      using from_broadcast_beacon [OF res beacon fr dec, of "blkHash block" networkNum] p(2) by auto
    have "0 \<le> blkNumber block \<and> blkNumber block < 2 ^ 63 \<longrightarrow> blkNumber blk = blkNumber block"
      using b(5) sint_bigInt_Uint64 [of "blkNumber block"] by simp
    then show ?thesis
      using beacon b by (auto simp: isBeaconType_def)
  qed
qed

lemma sample_resolvable:
  "resolvable (txStore (NewBlockProcessor sampleStore)) 1 (txStore (NewBlockProcessor sampleStore))
     [NewBxBlockTransaction (hashOf 5) [0xF8, 0x01], NewBxBlockTransaction (hashOf 6) [0xF8, 0x02]]"
  by (simp add: resolvable_def NewBlockProcessor_def sampleStore_def compressibleShortID_def knownTx_def
      NewBxBlockTransaction_def hashOf_eq)

theorem C1_round_trip_witness:
  "(\<exists>blk bp3.
      BxBlockFromBroadcast (NewBlockProcessor sampleStore) codec1 2
        (NewBlockBroadcast (hashOf 1) EmptyHash BxBlockTypeEth [0xC1] [7] 9) = ((Some blk, [], None), bp3) \<and>
      map bbtContent (blkTxs blk) = [[0xF8, 0x01], [0xF8, 0x02]] \<and>
      blkTrailer blk = [0xC0] \<and> blkHeader blk = [0xC0] \<and> blkNumber blk = 3 \<and>
      blkTotalDifficulty blk = Some 10) \<and>
   (\<exists>blk bp3.
      BxBlockFromBroadcast (NewBlockProcessor sampleStore) codec1 2
        (NewBlockBroadcast (hashOf 1) (hashOf 2) BxBlockTypeBeaconCapella [0x01] [7] 9) = ((Some blk, [], None), bp3) \<and>
      map bbtContent (blkTxs blk) = [[0xF8, 0x01], [0xF8, 0x02]] \<and>
      blkTrailer blk = [0x0A] \<and> blkHeader blk = [] \<and> blkNumber blk = 3 \<and>
      blkTotalDifficulty blk = None)"
proof -
  let ?bp = "NewBlockProcessor sampleStore"
  let ?bcE = "NewBlockBroadcast (hashOf 1) EmptyHash BxBlockTypeEth [0xC1] [7] 9"
  let ?bcB = "NewBlockBroadcast (hashOf 1) (hashOf 2) BxBlockTypeBeaconCapella [0x01] [7] 9"
  have fE: "blkType ethBlock1 = BxBlockTypeEth" "\<not> isBeaconType (blkType ethBlock1)"
    "blkTxs ethBlock1 = [NewBxBlockTransaction (hashOf 5) [0xF8, 0x01], NewBxBlockTransaction (hashOf 6) [0xF8, 0x02]]"
    "blkTrailer ethBlock1 = [0xC0]" "blkHeader ethBlock1 = [0xC0]" "blkNumber ethBlock1 = 3"
    "blkTotalDifficulty ethBlock1 = Some 10" "blkHash ethBlock1 = hashOf 1"
    by (simp_all add: ethBlock1_def NewRawBxBlock_def isBeaconType_def)
  have fB: "isBeaconType (blkType beaconBlock1)" "blkType beaconBlock1 \<noteq> BxBlockTypeEth"
    "blkTxs beaconBlock1 = [NewBxBlockTransaction (hashOf 5) [0xF8, 0x01], NewBxBlockTransaction (hashOf 6) [0xF8, 0x02]]"
    "blkTrailer beaconBlock1 = [0x0A]" "blkNumber beaconBlock1 = 3" "blkBeaconHash beaconBlock1 = hashOf 2"
    by (simp_all add: beaconBlock1_def NewRawBxBlock_def isBeaconType_def)
  have cl: "snd (compressLoop (txStore ?bp) 1
                   [NewBxBlockTransaction (hashOf 5) [0xF8, 0x01], NewBxBlockTransaction (hashOf 6) [0xF8, 0x02]]
                   [] []) =
            [\<lparr>IsFullTransaction = False, Transaction = []\<rparr>,
             \<lparr>IsFullTransaction = True, Transaction = [0xF8, 0x02]\<rparr>]"
    by (simp add: NewBlockProcessor_def sampleStore_def compressibleShortID_def knownTx_def
        NewBxBlockTransaction_def hashOf_eq)
  have rE: "rlpDecodeBytes codec1 (bcBlock ?bcE) =
              Inr \<lparr>rlpHeader = blkHeader ethBlock1,
                   rlpTxs = snd (compressLoop (txStore ?bp) 1 (blkTxs ethBlock1) [] []),
                   rlpTrailer = blkTrailer ethBlock1, rlpTotalDifficulty = blkTotalDifficulty ethBlock1,
                   rlpNumber = blkNumber ethBlock1\<rparr>"
    using cl
    by (simp add: codec1_def singleCodec_def NewBlockBroadcast_def ethEnvelope1_def ethBlock1_def
        NewRawBxBlock_def)
  have rB: "UnmarshalSSZ codec1 (bcBlock ?bcB) =
              Inr \<lparr>sszBlock = blkTrailer beaconBlock1,
                   sszTxs = snd (compressLoop (txStore ?bp) 1 (blkTxs beaconBlock1) [] []),
                   sszNumber = bigInt_Uint64 (blkNumber beaconBlock1)\<rparr>"
    using cl
    by (simp add: codec1_def singleCodec_def NewBlockBroadcast_def beaconEnvelope1_def beaconBlock1_def
        NewRawBxBlock_def bigInt_Uint64_def)
  have fr: "ShouldProcess ?bp 2 (hashOf 1)" "ShouldProcess ?bp 2 (hashOf 2)" "\<not> Empty (hashOf 2)"
    by (simp_all add: ShouldProcess_def NewBlockProcessor_def NewHashHistory_def hhExists_def hashOf_not_Empty)
  have cnt: "map bbtContent [NewBxBlockTransaction (hashOf 5) [0xF8, 0x01], NewBxBlockTransaction (hashOf 6) [0xF8, 0x02]]
             = [[0xF8, 0x01], [0xF8, 0x02]]"
    by (simp add: NewBxBlockTransaction_def)
  have hE:
    "resolvable (txStore ?bp) 1 (txStore ?bp) (blkTxs ethBlock1)"
    "blkType ethBlock1 = BxBlockTypeEth \<longrightarrow>
       rlpDecodeBytes codec1 (bcBlock ?bcE) =
         Inr \<lparr>rlpHeader = blkHeader ethBlock1,
              rlpTxs = snd (compressLoop (txStore ?bp) 1 (blkTxs ethBlock1) [] []),
              rlpTrailer = blkTrailer ethBlock1, rlpTotalDifficulty = blkTotalDifficulty ethBlock1,
              rlpNumber = blkNumber ethBlock1\<rparr>"
    "isBeaconType (blkType ethBlock1) \<longrightarrow>
       UnmarshalSSZ codec1 (bcBlock ?bcE) =
         Inr \<lparr>sszBlock = blkTrailer ethBlock1,
              sszTxs = snd (compressLoop (txStore ?bp) 1 (blkTxs ethBlock1) [] []),
              sszNumber = bigInt_Uint64 (blkNumber ethBlock1)\<rparr>"
    "blkType ethBlock1 = BxBlockTypeEth \<longrightarrow> ShouldProcess ?bp 2 (blkHash ethBlock1)"
    "isBeaconType (blkType ethBlock1) \<longrightarrow>
       \<not> Empty (blkBeaconHash ethBlock1) \<and> ShouldProcess ?bp 2 (blkBeaconHash ethBlock1)"
    using sample_resolvable rE fr fE by simp_all
  obtain blkE bpE where E:
    "BxBlockFromBroadcast ?bp codec1 2 ?bcE = ((Some blkE, [], None), bpE)"
    "map bbtContent (blkTxs blkE) = map bbtContent (blkTxs ethBlock1)"
    "blkTrailer blkE = blkTrailer ethBlock1"
    "blkHeader blkE = blkHeader ethBlock1" "blkNumber blkE = blkNumber ethBlock1"
    "blkTotalDifficulty blkE = blkTotalDifficulty ethBlock1"
    using C1_round_trip [OF ethBlock1_to_broadcast hE] fE(1) by blast
  have hB:
    "resolvable (txStore ?bp) 1 (txStore ?bp) (blkTxs beaconBlock1)"
    "blkType beaconBlock1 = BxBlockTypeEth \<longrightarrow>
       rlpDecodeBytes codec1 (bcBlock ?bcB) =
         Inr \<lparr>rlpHeader = blkHeader beaconBlock1,
              rlpTxs = snd (compressLoop (txStore ?bp) 1 (blkTxs beaconBlock1) [] []),
              rlpTrailer = blkTrailer beaconBlock1, rlpTotalDifficulty = blkTotalDifficulty beaconBlock1,
              rlpNumber = blkNumber beaconBlock1\<rparr>"
    "isBeaconType (blkType beaconBlock1) \<longrightarrow>
       UnmarshalSSZ codec1 (bcBlock ?bcB) =
         Inr \<lparr>sszBlock = blkTrailer beaconBlock1,
              sszTxs = snd (compressLoop (txStore ?bp) 1 (blkTxs beaconBlock1) [] []),
              sszNumber = bigInt_Uint64 (blkNumber beaconBlock1)\<rparr>"
    "blkType beaconBlock1 = BxBlockTypeEth \<longrightarrow> ShouldProcess ?bp 2 (blkHash beaconBlock1)"
    "isBeaconType (blkType beaconBlock1) \<longrightarrow>
       \<not> Empty (blkBeaconHash beaconBlock1) \<and> ShouldProcess ?bp 2 (blkBeaconHash beaconBlock1)"
    using sample_resolvable rB fr fB by simp_all
  have nB: "0 \<le> blkNumber beaconBlock1 \<and> blkNumber beaconBlock1 < 2 ^ 63"
    using fB(5) by simp
  obtain blkB bpB where B:
    "BxBlockFromBroadcast ?bp codec1 2 ?bcB = ((Some blkB, [], None), bpB)"
    "map bbtContent (blkTxs blkB) = map bbtContent (blkTxs beaconBlock1)"
    "blkTrailer blkB = blkTrailer beaconBlock1"
    "blkHeader blkB = []" "blkTotalDifficulty blkB = None" "blkNumber blkB = blkNumber beaconBlock1"
    using C1_round_trip [OF beaconBlock1_to_broadcast hB] fB(1) nB by blast
  show ?thesis
    using E B fE fB cnt by simp
qed

subsection \<open>Client handler: unsubscribe\<close>

text \<open>
  C9. On a connection that accepts replies, an unsubscribe request whose single parameter
  is the UUID of no registered subscription gets the replies \<open>false\<close> and then \<open>true\<close>, no
  JSON-RPC error is sent and the subscriptions are unchanged; unsubscribing a registered
  subscription removes it and gets the single reply \<open>true\<close>.
\<close>

theorem C9_unsubscribe:
  assumes "connOpen s" and "xUUIDFromString ext p = Some uid"
  shows "(uid \<notin> idToClientSubscription s \<longrightarrow>
            Handle_RPCUnsubscribe ext s (Some [p]) =
              s\<lparr>connSent := connSent s @ [Reply (ReplyString ''false''), Reply (ReplyString ''true'')]\<rparr>) \<and>
         (uid \<in> idToClientSubscription s \<longrightarrow>
            Handle_RPCUnsubscribe ext s (Some [p]) =
              s\<lparr>idToClientSubscription := idToClientSubscription s - {uid},
                connSent := connSent s @ [Reply (ReplyString ''true'')]\<rparr>)"
  using assms
  by (simp add: Handle_RPCUnsubscribe_def Unsubscribe_def reply_def Let_def)

theorem C9_unsubscribe_witness:
  "Handle_RPCUnsubscribe ext1 state1 (Some [uuid2]) =
     state1\<lparr>connSent := [Reply (ReplyString ''false''), Reply (ReplyString ''true'')]\<rparr> \<and>
   Handle_RPCUnsubscribe ext1 state1 (Some [uuid1]) =
     state1\<lparr>idToClientSubscription := {}, connSent := [Reply (ReplyString ''true'')]\<rparr>"
proof -
  have h: "connOpen state1" "xUUIDFromString ext1 uuid2 = Some uuid2" "xUUIDFromString ext1 uuid1 = Some uuid1"
    "uuid2 \<notin> idToClientSubscription state1" "uuid1 \<in> idToClientSubscription state1"
    "connSent state1 = []" "idToClientSubscription state1 - {uuid1} = {}"
    by (simp_all add: state1_def ext1_def uuid1_def uuid2_def)
  show ?thesis
    using C9_unsubscribe [OF h(1) h(2)] C9_unsubscribe [OF h(1) h(3)] h(4-7)
    by simp
qed

subsection \<open>Client handler: batch submission\<close>

lemma txFlagsFor_batch:
  "txFlagsFor vo False False = {TFPaidTx, TFLocalRegion, if vo then TFValidatorsOnly else TFDeliverToNode}"
  by (auto simp: txFlagsFor_def Let_def)

lemma validate_batch:
  "\<exists>tx err. ValidateTxFromExternalSource ext transaction txBytes vo chainID False 0 None None networkNum
               accountID False ws pending False now = Returns ((tx, False, err), pending) \<and>
            (\<forall>t. tx = Some t \<longrightarrow>
               mFlags t = {TFPaidTx, TFLocalRegion, if vo then TFValidatorsOnly else TFDeliverToNode} \<and>
               mFallback t = 0)"
  by (auto simp: ValidateTxFromExternalSource_def Let_def txFlagsFor_batch NewTx_def
      split: sum.splits)

lemma single_batch:
  assumes "handleSingleTransaction ext s transaction ws vo False False 0 None None False False now = (r, s')"
  shows "pendingBSCNextValidatorTxHashToInfo s' = pendingBSCNextValidatorTxHashToInfo s \<and>
         timers s' = timers s \<and>
         (handledMsgs s' = handledMsgs s \<or>
          (\<exists>m. handledMsgs s' = handledMsgs s @ [(m, ws)] \<and>
               (\<forall>t. m = Some t \<longrightarrow>
                  mFlags t = {TFPaidTx, TFLocalRegion, if vo then TFValidatorsOnly else TFDeliverToNode} \<and>
                  mFallback t = 0))) \<and>
         (\<forall>h. r = Returns (h, True) \<longrightarrow>
            (\<exists>t. handledMsgs s' = handledMsgs s @ [(Some t, ws)] \<and> h = hexString (mHash t)))"
proof (cases "pendingLocked s")
  case True
  then show ?thesis
    using assms by (auto simp: handleSingleTransaction_def)
next
  case unlocked: False
  show ?thesis
  proof (cases "xDecodeHex ext transaction")
    case (Inl err)
    then show ?thesis
      using assms unlocked by (auto simp: handleSingleTransaction_def Let_def SendErrorMsg_def)
  next
    case (Inr txBytes)
    obtain tx err where v:
      "ValidateTxFromExternalSource ext transaction txBytes vo (fmChainID s) False 0 None None (fmNetworkNum s)
         (rcAccountID ws) False ws (pendingBSCNextValidatorTxHashToInfo s) False now
       = Returns ((tx, False, err), pendingBSCNextValidatorTxHashToInfo s)"
      "\<forall>t. tx = Some t \<longrightarrow>
         mFlags t = {TFPaidTx, TFLocalRegion, if vo then TFValidatorsOnly else TFDeliverToNode} \<and>
         mFallback t = 0"
      using validate_batch by blast
    show ?thesis
      using assms unlocked Inr v
      by (auto simp: handleSingleTransaction_def Let_def split: option.splits)
  qed
qed

lemma batchLoop_inv:
  "batchLoop ext s txs ws vo now hs = (r, s') \<Longrightarrow>
   pendingBSCNextValidatorTxHashToInfo s' = pendingBSCNextValidatorTxHashToInfo s \<and>
   timers s' = timers s \<and>
   (\<exists>new. handledMsgs s' = handledMsgs s @ new \<and> list_all (batchMsgOk vo ws) new \<and>
      (\<forall>hs'. r = Returns hs' \<longrightarrow>
         (\<exists>acc. hs' = hs @ map (\<lambda>t. hexString (mHash t)) acc \<and>
                (\<forall>t \<in> set acc. (Some t, ws) \<in> set new))))"
proof (induction txs arbitrary: s hs)
  case Nil
  then show ?case by auto
next
  case (Cons transaction rest)
  obtain r1 s1 where one:
    "handleSingleTransaction ext s transaction ws vo False False 0 None None False False now = (r1, s1)"
    by (cases "handleSingleTransaction ext s transaction ws vo False False 0 None None False False now") auto
  note sb = single_batch [OF one]
  obtain new1 where n1: "handledMsgs s1 = handledMsgs s @ new1" "list_all (batchMsgOk vo ws) new1"
    using sb by (auto simp: batchMsgOk_def)
  show ?case
  proof (cases r1)
    case (Returns p)
    obtain h ok where p: "p = (h, ok)" by (cases p)
    show ?thesis
    proof (cases ok)
      case True
      obtain t where t: "handledMsgs s1 = handledMsgs s @ [(Some t, ws)]" "h = hexString (mHash t)"
        using sb Returns p True by auto
      have new1: "new1 = [(Some t, ws)]"
        using n1(1) t(1) by simp
      have rec: "batchLoop ext s1 rest ws vo now (hs @ [h]) = (r, s')"
        using Cons.prems one Returns p True by simp
      from Cons.IH [OF rec] obtain new2 where n2:
        "pendingBSCNextValidatorTxHashToInfo s' = pendingBSCNextValidatorTxHashToInfo s1"
        "timers s' = timers s1"
        "handledMsgs s' = handledMsgs s1 @ new2" "list_all (batchMsgOk vo ws) new2"
        "\<forall>hs'. r = Returns hs' \<longrightarrow>
           (\<exists>acc. hs' = (hs @ [h]) @ map (\<lambda>t. hexString (mHash t)) acc \<and>
                  (\<forall>t \<in> set acc. (Some t, ws) \<in> set new2))"
        by blast
      have acc: "\<forall>hs'. r = Returns hs' \<longrightarrow>
           (\<exists>acc. hs' = hs @ map (\<lambda>t. hexString (mHash t)) acc \<and>
                  (\<forall>t \<in> set acc. (Some t, ws) \<in> set (new1 @ new2)))"
      proof (intro allI impI)
        fix hs' assume "r = Returns hs'"
        then obtain acc where a: "hs' = (hs @ [h]) @ map (\<lambda>t. hexString (mHash t)) acc"
          "\<forall>t \<in> set acc. (Some t, ws) \<in> set new2"
          using n2(5) by blast
        have "hs' = hs @ map (\<lambda>t. hexString (mHash t)) (t # acc)"
          using a(1) t(2) by simp
        moreover have "\<forall>u \<in> set (t # acc). (Some u, ws) \<in> set (new1 @ new2)"
          using a(2) new1 by auto
        ultimately show "\<exists>acc. hs' = hs @ map (\<lambda>t. hexString (mHash t)) acc \<and>
                  (\<forall>t \<in> set acc. (Some t, ws) \<in> set (new1 @ new2))"
          by blast
      qed
      have "handledMsgs s' = handledMsgs s @ (new1 @ new2)" "list_all (batchMsgOk vo ws) (new1 @ new2)"
        using n1 n2 by simp_all
      then show ?thesis
        using n2(1,2) sb acc by metis
    next
      case False
      have rec: "batchLoop ext s1 rest ws vo now hs = (r, s')"
        using Cons.prems one Returns p False by simp
      from Cons.IH [OF rec] obtain new2 where n2:
        "pendingBSCNextValidatorTxHashToInfo s' = pendingBSCNextValidatorTxHashToInfo s1"
        "timers s' = timers s1"
        "handledMsgs s' = handledMsgs s1 @ new2" "list_all (batchMsgOk vo ws) new2"
        "\<forall>hs'. r = Returns hs' \<longrightarrow>
           (\<exists>acc. hs' = hs @ map (\<lambda>t. hexString (mHash t)) acc \<and>
                  (\<forall>t \<in> set acc. (Some t, ws) \<in> set new2))"
        by blast
      have acc: "\<forall>hs'. r = Returns hs' \<longrightarrow>
           (\<exists>acc. hs' = hs @ map (\<lambda>t. hexString (mHash t)) acc \<and>
                  (\<forall>t \<in> set acc. (Some t, ws) \<in> set (new1 @ new2)))"
      proof (intro allI impI)
        fix hs' assume "r = Returns hs'"
        then obtain acc where a: "hs' = hs @ map (\<lambda>t. hexString (mHash t)) acc"
          "\<forall>t \<in> set acc. (Some t, ws) \<in> set new2"
          using n2(5) by blast
        have "\<forall>u \<in> set acc. (Some u, ws) \<in> set (new1 @ new2)"
          using a(2) by auto
        then show "\<exists>acc. hs' = hs @ map (\<lambda>t. hexString (mHash t)) acc \<and>
                  (\<forall>t \<in> set acc. (Some t, ws) \<in> set (new1 @ new2))"
          using a(1) by blast
      qed
      have "handledMsgs s' = handledMsgs s @ (new1 @ new2)" "list_all (batchMsgOk vo ws) (new1 @ new2)"
        using n1 n2 by simp_all
      then show ?thesis
        using n2(1,2) sb acc by metis
    qed
  next
    case Blocks
    then have "r = Blocks" "s' = s1"
      using Cons.prems one by simp_all
    then show ?thesis
      using sb n1 by auto
  next
    case Panics
    then have "r = Panics" "s' = s1"
      using Cons.prems one by simp_all
    then show ?thesis
      using sb n1 by auto
  qed
qed

text \<open>
  C10. The batch loop calls \<open>handleSingleTransaction\<close> for every transaction with
  \<open>sendError = false\<close>, \<open>nextValidator = false\<close>, \<open>fallback = 0\<close>, \<^verbatim>\<open>nil\<close> validator maps,
  \<open>nodeValidation = false\<close> and \<open>frontRunningProtection = false\<close>; only
  \<open>ValidatorsOnly\<close> comes from the payload. Whatever the outcome of \<^verbatim>\<open>blxr_batch_tx\<close>, the
  pending-next-validator table and the armed timers are as before, and every transaction
  that was handed to the node carries exactly \<^verbatim>\<open>TFPaidTx\<close>, \<^verbatim>\<open>TFLocalRegion\<close> and
  \<^verbatim>\<open>TFValidatorsOnly\<close> (when requested) or else \<^verbatim>\<open>TFDeliverToNode\<close>, hence neither
  \<^verbatim>\<open>TFNextValidator\<close> nor \<^verbatim>\<open>TFFrontRunningProtection\<close>, and has fallback 0. Every accepted
  transaction (every hash the loop returns) is one of those.
\<close>

theorem C10_batch_tx:
  "batchLoop ext s (transaction # rest) ws vo now hs =
     (case handleSingleTransaction ext s transaction ws vo False False 0 None None False False now of
        (Returns (h, ok), s1) \<Rightarrow> batchLoop ext s1 rest ws vo now (if ok then hs @ [h] else hs)
      | (Blocks, s1) \<Rightarrow> (Blocks, s1)
      | (Panics, s1) \<Rightarrow> (Panics, s1)) \<and>
   (Handle_RPCBatchTx ext s account remote (Some (Inr p)) now = (r, s') \<longrightarrow>
      pendingBSCNextValidatorTxHashToInfo s' = pendingBSCNextValidatorTxHashToInfo s \<and>
      timers s' = timers s \<and>
      (\<exists>new. handledMsgs s' = handledMsgs s @ new \<and>
         (\<forall>mc \<in> set new. \<forall>t. fst mc = Some t \<longrightarrow>
            mFlags t = {TFPaidTx, TFLocalRegion,
                        if btValidatorsOnly p then TFValidatorsOnly else TFDeliverToNode} \<and>
            TFNextValidator \<notin> mFlags t \<and> TFFrontRunningProtection \<notin> mFlags t \<and>
            mFallback t = 0))) \<and>
   (batchLoop ext s txs ws vo now [] = (Returns accepted, s2) \<longrightarrow>
      pendingBSCNextValidatorTxHashToInfo s2 = pendingBSCNextValidatorTxHashToInfo s \<and>
      timers s2 = timers s \<and>
      (\<forall>h \<in> set accepted.
         \<exists>t. (Some t, ws) \<in> set (drop (length (handledMsgs s)) (handledMsgs s2)) \<and>
             h = hexString (mHash t) \<and>
             mFlags t = {TFPaidTx, TFLocalRegion, if vo then TFValidatorsOnly else TFDeliverToNode} \<and>
             TFNextValidator \<notin> mFlags t \<and> TFFrontRunningProtection \<notin> mFlags t \<and>
             mFallback t = 0))"
proof -
  have one: "batchLoop ext s (transaction # rest) ws vo now hs =
     (case handleSingleTransaction ext s transaction ws vo False False 0 None None False False now of
        (Returns (h, ok), s1) \<Rightarrow> batchLoop ext s1 rest ws vo now (if ok then hs @ [h] else hs)
      | (Blocks, s1) \<Rightarrow> (Blocks, s1)
      | (Panics, s1) \<Rightarrow> (Panics, s1))"
    by (auto split: prod.splits outcome.splits)
  have two: "Handle_RPCBatchTx ext s account remote (Some (Inr p)) now = (r, s') \<longrightarrow>
      pendingBSCNextValidatorTxHashToInfo s' = pendingBSCNextValidatorTxHashToInfo s \<and>
      timers s' = timers s \<and>
      (\<exists>new. handledMsgs s' = handledMsgs s @ new \<and>
         (\<forall>mc \<in> set new. \<forall>t. fst mc = Some t \<longrightarrow>
            mFlags t = {TFPaidTx, TFLocalRegion,
                        if btValidatorsOnly p then TFValidatorsOnly else TFDeliverToNode} \<and>
            TFNextValidator \<notin> mFlags t \<and> TFFrontRunningProtection \<notin> mFlags t \<and>
            mFallback t = 0))"
  proof
  assume H: "Handle_RPCBatchTx ext s account remote (Some (Inr p)) now = (r, s')"
  let ?ws = "if account = xBloxrouteAccountID ext
             then NewRPCConn (btOriginalSenderAccountID p) remote (fmNetworkNum s) CloudAPI
             else NewRPCConn account remote (fmNetworkNum s) Websocket"
  let ?P = "\<lambda>s'. pendingBSCNextValidatorTxHashToInfo s' = pendingBSCNextValidatorTxHashToInfo s \<and>
      timers s' = timers s \<and>
      (\<exists>new. handledMsgs s' = handledMsgs s @ new \<and> list_all (batchMsgOk (btValidatorsOnly p) ?ws) new)"
  obtain r1 s1 where L: "batchLoop ext s (btTransactions p) ?ws (btValidatorsOnly p) now [] = (r1, s1)"
    by (cases "batchLoop ext s (btTransactions p) ?ws (btValidatorsOnly p) now []") auto
  have P1: "?P s1"
    using batchLoop_inv [OF L] by blast
  have P0: "?P s"
    by simp
  have same: "\<And>c d. ?P (SendErrorMsg s1 c d)" "\<And>v. ?P (snd (reply s1 v))"
    using P1 by (auto simp: SendErrorMsg_def reply_def)
  have "?P s'"
  proof (cases "fmAccountID s \<noteq> account")
    case True
    then show ?thesis using H P0 by (simp add: Handle_RPCBatchTx_def)
  next
    case False
    then have "s' = s1 \<or> (\<exists>c d. s' = SendErrorMsg s1 c d) \<or> (\<exists>v. s' = snd (reply s1 v))"
      using H L by (auto simp: Handle_RPCBatchTx_def Let_def split: outcome.splits if_splits)
    then show ?thesis
      using P1 same by metis
  qed
  then obtain new where n: "handledMsgs s' = handledMsgs s @ new"
    "list_all (batchMsgOk (btValidatorsOnly p) ?ws) new"
    by blast
  have "\<forall>mc \<in> set new. \<forall>t. fst mc = Some t \<longrightarrow>
            mFlags t = {TFPaidTx, TFLocalRegion,
                        if btValidatorsOnly p then TFValidatorsOnly else TFDeliverToNode} \<and>
            TFNextValidator \<notin> mFlags t \<and> TFFrontRunningProtection \<notin> mFlags t \<and>
            mFallback t = 0"
    using n(2) by (auto simp: list_all_iff batchMsgOk_def)
  then show "pendingBSCNextValidatorTxHashToInfo s' = pendingBSCNextValidatorTxHashToInfo s \<and>
      timers s' = timers s \<and>
      (\<exists>new. handledMsgs s' = handledMsgs s @ new \<and>
         (\<forall>mc \<in> set new. \<forall>t. fst mc = Some t \<longrightarrow>
            mFlags t = {TFPaidTx, TFLocalRegion,
                        if btValidatorsOnly p then TFValidatorsOnly else TFDeliverToNode} \<and>
            TFNextValidator \<notin> mFlags t \<and> TFFrontRunningProtection \<notin> mFlags t \<and>
            mFallback t = 0))"
    using \<open>?P s'\<close> n(1) by auto
  qed
  have three: "batchLoop ext s txs ws vo now [] = (Returns accepted, s2) \<longrightarrow>
      pendingBSCNextValidatorTxHashToInfo s2 = pendingBSCNextValidatorTxHashToInfo s \<and>
      timers s2 = timers s \<and>
      (\<forall>h \<in> set accepted.
         \<exists>t. (Some t, ws) \<in> set (drop (length (handledMsgs s)) (handledMsgs s2)) \<and>
             h = hexString (mHash t) \<and>
             mFlags t = {TFPaidTx, TFLocalRegion, if vo then TFValidatorsOnly else TFDeliverToNode} \<and>
             TFNextValidator \<notin> mFlags t \<and> TFFrontRunningProtection \<notin> mFlags t \<and>
             mFallback t = 0)"
  proof
  assume L: "batchLoop ext s txs ws vo now [] = (Returns accepted, s2)"
  obtain new acc where n:
    "pendingBSCNextValidatorTxHashToInfo s2 = pendingBSCNextValidatorTxHashToInfo s"
    "timers s2 = timers s"
    "handledMsgs s2 = handledMsgs s @ new" "list_all (batchMsgOk vo ws) new"
    "accepted = [] @ map (\<lambda>t. hexString (mHash t)) acc" "\<forall>t \<in> set acc. (Some t, ws) \<in> set new"
    using batchLoop_inv [OF L] by blast
  have d: "drop (length (handledMsgs s)) (handledMsgs s2) = new"
    using n(3) by simp
  have "\<forall>h \<in> set accepted.
         \<exists>t. (Some t, ws) \<in> set new \<and> h = hexString (mHash t) \<and>
             mFlags t = {TFPaidTx, TFLocalRegion, if vo then TFValidatorsOnly else TFDeliverToNode} \<and>
             TFNextValidator \<notin> mFlags t \<and> TFFrontRunningProtection \<notin> mFlags t \<and>
             mFallback t = 0"
  proof
    fix h assume "h \<in> set accepted"
    then obtain t where t: "t \<in> set acc" "h = hexString (mHash t)"
      using n(5) by auto
    then have m: "(Some t, ws) \<in> set new"
      using n(6) by blast
    then have "batchMsgOk vo ws (Some t, ws)"
      using n(4) by (simp add: list_all_iff)
    then show "\<exists>t. (Some t, ws) \<in> set new \<and> h = hexString (mHash t) \<and>
             mFlags t = {TFPaidTx, TFLocalRegion, if vo then TFValidatorsOnly else TFDeliverToNode} \<and>
             TFNextValidator \<notin> mFlags t \<and> TFFrontRunningProtection \<notin> mFlags t \<and>
             mFallback t = 0"
      using m t(2) by (intro exI [of _ t]) (auto simp: batchMsgOk_def)
  qed
  then show "pendingBSCNextValidatorTxHashToInfo s2 = pendingBSCNextValidatorTxHashToInfo s \<and>
      timers s2 = timers s \<and>
      (\<forall>h \<in> set accepted.
         \<exists>t. (Some t, ws) \<in> set (drop (length (handledMsgs s)) (handledMsgs s2)) \<and>
             h = hexString (mHash t) \<and>
             mFlags t = {TFPaidTx, TFLocalRegion, if vo then TFValidatorsOnly else TFDeliverToNode} \<and>
             TFNextValidator \<notin> mFlags t \<and> TFFrontRunningProtection \<notin> mFlags t \<and>
             mFallback t = 0)"
    using n(1,2) d by simp
  qed
  show ?thesis
    by (rule conjI [OF one conjI [OF two three]])
qed

lemma state1_single_f801:
  "handleSingleTransaction ext1 (state1\<lparr>handledMsgs := hm\<rparr>) ''f801'' ws1 True False False 0 None None False False 5 =
     (Returns (hexString (hashOf 9), True),
      state1\<lparr>handledMsgs := hm @ [(Some (NewTx (hashOf 9) [0xF8, 0x01] 10
                                          {TFPaidTx, TFLocalRegion, TFValidatorsOnly} ''acct''), ws1)]\<rparr>)"
  by (simp add: handleSingleTransaction_def ValidateTxFromExternalSource_def decodeEthTx_def ext1_def
      state1_def ws1_def NewRPCConn_def bigInt_Int64_def bigInt_Uint64_def txFlagsFor_def NewTx_def Let_def
      insert_commute)

theorem C10_batch_tx_witness:
  "Handle_RPCBatchTx ext1 state1 ''acct'' ''10.0.0.1''
     (Some (Inr \<lparr>btTransactions = [''f801''], btValidatorsOnly = True, btOriginalSenderAccountID = []\<rparr>)) 5 =
   (Returns (),
    state1\<lparr>handledMsgs := [(Some (NewTx (hashOf 9) [0xF8, 0x01] 10
                                      {TFPaidTx, TFLocalRegion, TFValidatorsOnly} ''acct''), ws1)],
           connSent := [Reply (ReplyTxHashes [hexString (hashOf 9)])]\<rparr>) \<and>
   pendingBSCNextValidatorTxHashToInfo
     (state1\<lparr>handledMsgs := [(Some (NewTx (hashOf 9) [0xF8, 0x01] 10
                                      {TFPaidTx, TFLocalRegion, TFValidatorsOnly} ''acct''), ws1)],
            connSent := [Reply (ReplyTxHashes [hexString (hashOf 9)])]\<rparr>)
     = pendingBSCNextValidatorTxHashToInfo state1 \<and>
   timers
     (state1\<lparr>handledMsgs := [(Some (NewTx (hashOf 9) [0xF8, 0x01] 10
                                      {TFPaidTx, TFLocalRegion, TFValidatorsOnly} ''acct''), ws1)],
            connSent := [Reply (ReplyTxHashes [hexString (hashOf 9)])]\<rparr>)
     = timers state1"
proof -
  let ?p = "\<lparr>btTransactions = [''f801''], btValidatorsOnly = True, btOriginalSenderAccountID = []\<rparr>"
  let ?tx = "NewTx (hashOf 9) [0xF8, 0x01] 10 {TFPaidTx, TFLocalRegion, TFValidatorsOnly} ''acct''"
  let ?s' = "state1\<lparr>handledMsgs := [(Some ?tx, ws1)],
                    connSent := [Reply (ReplyTxHashes [hexString (hashOf 9)])]\<rparr>"
  have s: "state1\<lparr>handledMsgs := []\<rparr> = state1"
    by (simp add: state1_def)
  have one: "handleSingleTransaction ext1 state1 ''f801'' ws1 True False False 0 None None False False 5 =
     (Returns (hexString (hashOf 9), True), state1\<lparr>handledMsgs := [(Some ?tx, ws1)]\<rparr>)"
    using state1_single_f801 [of "[]"] s by simp
  have ws: "(if ''acct'' = xBloxrouteAccountID ext1
             then NewRPCConn (btOriginalSenderAccountID ?p) ''10.0.0.1'' (fmNetworkNum state1) CloudAPI
             else NewRPCConn ''acct'' ''10.0.0.1'' (fmNetworkNum state1) Websocket) = ws1"
    by (simp add: ext1_def ws1_def state1_def)
  have acc: "fmAccountID state1 = ''acct''" "connOpen (state1\<lparr>handledMsgs := [(Some ?tx, ws1)]\<rparr>)"
    "connSent (state1\<lparr>handledMsgs := [(Some ?tx, ws1)]\<rparr>) = []"
    by (simp_all add: state1_def)
  have run: "Handle_RPCBatchTx ext1 state1 ''acct'' ''10.0.0.1'' (Some (Inr ?p)) 5 = (Returns (), ?s')"
    using one acc by (simp add: Handle_RPCBatchTx_def ws reply_def Let_def)
  show ?thesis
    using C10_batch_tx [of ext1 state1 "''f801''" "[]" ws1 True 5 "[]" "''acct''" "''10.0.0.1''" ?p
        "Returns ()" ?s' "[''f801'']" "[hexString (hashOf 9)]" "state1\<lparr>handledMsgs := [(Some ?tx, ws1)]\<rparr>"]
      run
    by simp
qed

subsection \<open>Client handler: next-validator transactions on BSC\<close>

lemma unlocked_release:
  "\<not> pendingLocked s \<Longrightarrow> s\<lparr>pendingLocked := False\<rparr> = s"
  by simp







end
